theory Spec2Isabelle
  imports Complex_Main "HOL-Library.Word"
begin

unbundle bit_operations_syntax

section \<open>Bytes, strings and slices\<close>

text \<open>
  A Go \<open>byte\<close> is an 8-bit word.  Go's \<open>uint\<close> is 64 bits wide on the platforms the
  bridge is released for (linux/amd64 and linux/arm64); the test suite itself narrows
  \<open>pkt.StreamID\<close> with \<open>uint32(...)\<close>.  A Go \<open>string\<close> is a sequence of bytes;
  it is modelled as a \<open>string\<close>, whose characters are exactly the 256 byte values.
\<close>

type_synonym byte = "8 word"
type_synonym uint = "64 word"

text \<open>The conversions \<open>[]byte(s)\<close> and \<open>string(b)\<close>.\<close>

definition bytes_of_string :: "string \<Rightarrow> byte list" where
  "bytes_of_string s = map of_char s"

definition string_of_bytes :: "byte list \<Rightarrow> string" where
  "string_of_bytes bs = map (\<lambda>b. char_of (unat b)) bs"

text \<open>
  Go's builtin \<open>copy(dst, src)\<close> overwrites the first \<open>min (len dst) (len src)\<close>
  elements of \<open>dst\<close> and leaves the rest of \<open>dst\<close> alone; the result is the new
  content of \<open>dst\<close>.
\<close>

definition copy_go :: "'a list \<Rightarrow> 'a list \<Rightarrow> 'a list" where
  "copy_go dst src = take (length dst) src @ drop (length src) dst"

section \<open>The DMRD frame (package proto)\<close>

record Packet =
  Signature :: string
  Seq :: uint
  Src :: uint
  Dst :: uint
  Repeater :: uint
  Slot :: bool
  GroupCall :: bool
  FrameType :: uint
  DTypeOrVSeq :: uint
  StreamID :: uint
  DMRData :: "byte list"

text \<open>
  \<open>DMRData\<close> has the Go type \<open>[33]byte\<close>: every value of the type holds exactly 33
  bytes.  In the model the field is a list, and the array type is the predicate below.
\<close>

definition DMRData_is_array :: "Packet \<Rightarrow> bool" where
  "DMRData_is_array p = (length (DMRData p) = 33)"

text \<open>
  \<open>Decode\<close> returns \<open>(packet, false)\<close> on the two length checks and
  \<open>(packet, true)\<close> otherwise; \<open>None\<close> stands for \<open>ok = false\<close>.
\<close>

definition Decode :: "byte list \<Rightarrow> Packet option" where
  "Decode data =
    (if length data < 53 then None
     else if length data > 55 then None
     else
       let bits = data ! 15 in
       Some \<lparr>
         Signature = string_of_bytes (take 4 data),
         Seq = ucast (data ! 4),
         Src = push_bit 16 (ucast (data ! 5)) OR push_bit 8 (ucast (data ! 6))
                 OR ucast (data ! 7),
         Dst = push_bit 16 (ucast (data ! 8)) OR push_bit 8 (ucast (data ! 9))
                 OR ucast (data ! 10),
         Repeater = push_bit 24 (ucast (data ! 11)) OR push_bit 16 (ucast (data ! 12))
                 OR push_bit 8 (ucast (data ! 13)) OR ucast (data ! 14),
         Slot = (if bits AND 0x1 \<noteq> 0 then True else False),
         GroupCall = (if bits AND 0x2 \<noteq> 0 then False else True),
         FrameType = ucast (drop_bit 2 (bits AND 0xC)),
         DTypeOrVSeq = ucast (drop_bit 4 (bits AND 0xF0)),
         StreamID = push_bit 24 (ucast (data ! 16)) OR push_bit 16 (ucast (data ! 17))
                 OR push_bit 8 (ucast (data ! 18)) OR ucast (data ! 19),
         DMRData = copy_go (replicate 33 0) (take 33 (drop 20 data))
       \<rparr>)"

text \<open>The flags byte that \<open>Encode\<close> accumulates in its local variable \<open>bits\<close>.\<close>

definition Encode_bits :: "Packet \<Rightarrow> byte" where
  "Encode_bits p =
    (let bits = (0 :: byte);
         bits = (if Slot p then bits OR 0x1 else bits);
         bits = (if \<not> GroupCall p then bits OR 0x2 else bits);
         bits = bits OR ucast (push_bit 2 (FrameType p AND 0x3));
         bits = bits OR ucast (push_bit 4 (DTypeOrVSeq p AND 0xF))
     in bits)"

definition Encode :: "Packet \<Rightarrow> byte list" where
  "Encode p =
    (let data = replicate 53 (0 :: byte);
         data = copy_go (take 4 data) (bytes_of_string (Signature p)) @ drop 4 data;
         data = data[4 := ucast (Seq p)];
         data = data[5 := ucast (drop_bit 16 (Src p))];
         data = data[6 := ucast (drop_bit 8 (Src p))];
         data = data[7 := ucast (Src p)];
         data = data[8 := ucast (drop_bit 16 (Dst p))];
         data = data[9 := ucast (drop_bit 8 (Dst p))];
         data = data[10 := ucast (Dst p)];
         data = data[11 := ucast (drop_bit 24 (Repeater p))];
         data = data[12 := ucast (drop_bit 16 (Repeater p))];
         data = data[13 := ucast (drop_bit 8 (Repeater p))];
         data = data[14 := ucast (Repeater p)];
         data = data[15 := Encode_bits p];
         data = data[16 := ucast (drop_bit 24 (StreamID p))];
         data = data[17 := ucast (drop_bit 16 (StreamID p))];
         data = data[18 := ucast (drop_bit 8 (StreamID p))];
         data = data[19 := ucast (StreamID p)];
         data = take 20 data @ copy_go (take 33 (drop 20 data)) (DMRData p) @ drop 53 data
     in data)"

subsection \<open>Concrete frames and datagrams\<close>

definition sample_frame :: Packet where
  "sample_frame =
     \<lparr> Signature = ''DMRD'', Seq = 42, Src = 123456, Dst = 654321, Repeater = 3001,
       Slot = True, GroupCall = True, FrameType = 1, DTypeOrVSeq = 3,
       StreamID = 0xDEADBEEF, DMRData = map of_nat [0..<33] \<rparr>"

definition bitfield_frame :: Packet where
  "bitfield_frame =
     \<lparr> Signature = ''DMRD'', Seq = 0, Src = 0, Dst = 0, Repeater = 0,
       Slot = True, GroupCall = False, FrameType = 2, DTypeOrVSeq = 5,
       StreamID = 0, DMRData = replicate 33 0 \<rparr>"

definition trailing_datagram :: "byte list" where
  "trailing_datagram = bytes_of_string ''DMRD'' @ replicate 49 0x11 @ [0xAA, 0xBB]"

definition oversized_frame :: Packet where
  "oversized_frame =
     \<lparr> Signature = ''DMRD'', Seq = 0x1FF, Src = 0x1000001, Dst = 0x2000002,
       Repeater = 0x100000003, Slot = True, GroupCall = False, FrameType = 6,
       DTypeOrVSeq = 0x1F, StreamID = 0x100000004, DMRData = replicate 33 0x55 \<rparr>"

definition unsigned_datagram :: "byte list" where
  "unsigned_datagram = bytes_of_string ''XXXX'' @ replicate 49 0"

section \<open>Configuration and its validation (package config)\<close>

text \<open>
  A Go \<open>float64\<close> is a finite value, an infinity or NaN.  \<open>Validate\<close> only compares
  latitude and longitude with constants; every comparison with NaN is false.
\<close>

datatype float64 = Finite real | PosInf | NegInf | NaN

fun f64_less :: "float64 \<Rightarrow> real \<Rightarrow> bool" where
  "f64_less (Finite x) c = (x < c)"
| "f64_less NegInf c = True"
| "f64_less PosInf c = False"
| "f64_less NaN c = False"

fun f64_greater :: "float64 \<Rightarrow> real \<Rightarrow> bool" where
  "f64_greater (Finite x) c = (x > c)"
| "f64_greater PosInf c = True"
| "f64_greater NegInf c = False"
| "f64_greater NaN c = False"

record IPSCAuth =
  Enabled :: bool
  Key :: string

record IPSC =
  Interface :: string
  Port :: "16 word"
  IP :: string
  SubnetMask :: int
  Auth :: IPSCAuth

record HBRP =
  Callsign :: string
  ID :: "32 word"
  RXFreq :: uint
  TXFreq :: uint
  TXPower :: byte
  ColorCode :: byte
  Latitude :: float64
  Longitude :: float64
  Height :: "16 word"
  Location :: string
  Description :: string
  URL :: string
  MasterServer :: string
  Password :: string

record Config =
  LogLevel :: string
  HBRP :: HBRP
  IPSC :: IPSC

text \<open>
  The error values of both revisions of \<open>config.go\<close> (the later revision renames the
  \<open>HBRP\<close> errors to \<open>MMDVM\<close> and adds the network and rewrite errors).
\<close>

datatype error =
    ErrInvalidLogLevel
  | ErrInvalidHBRPCallsign
  | ErrInvalidHBRPColorCode
  | ErrInvalidHBRPLongitude
  | ErrInvalidHBRPLatitude
  | ErrInvalidHBRPMasterServer
  | ErrInvalidHBRPPassword
  | ErrNoMMDVMNetworks
  | ErrInvalidMMDVMName
  | ErrDuplicateMMDVMName
  | ErrInvalidMMDVMCallsign
  | ErrInvalidMMDVMColorCode
  | ErrInvalidMMDVMLongitude
  | ErrInvalidMMDVMLatitude
  | ErrInvalidMMDVMMasterServer
  | ErrInvalidMMDVMPassword
  | ErrInvalidRewriteSlot
  | ErrInvalidRewriteRange
  | ErrInvalidIPSCInterface
  | ErrInvalidIPSCIP
  | ErrInvalidIPSCSubnetMask
  | ErrInvalidIPSCAuthKey

definition LogLevel_known :: "string \<Rightarrow> bool" where
  "LogLevel_known l = (l = ''debug'' \<or> l = ''info'' \<or> l = ''warn'' \<or> l = ''error'')"

text \<open>
  The regular expression \<open>^[0-9a-fA-F]{0,40}$\<close>, matched against the whole key (Go's
  \<open>$\<close> without the multi-line flag matches only at the end of the text): at most 40
  characters, each a hexadecimal digit.  A byte outside ASCII is never in the class.
\<close>

definition hex_class :: "char \<Rightarrow> bool" where
  "hex_class c = (c \<in> set ''0123456789abcdefABCDEF'')"

definition authkey_MatchString :: "string \<Rightarrow> bool" where
  "authkey_MatchString s = (length s \<le> 40 \<and> list_all hex_class s)"

text \<open>
  The two auth-key checks that end \<open>Validate\<close> in both revisions
  (config.go lines 125--135 and 337--347).
\<close>

definition Validate_auth_key :: "IPSCAuth \<Rightarrow> error option" where
  "Validate_auth_key a =
    (if Enabled a \<and> Key a = [] then Some ErrInvalidIPSCAuthKey
     else if \<not> authkey_MatchString (Key a) then Some ErrInvalidIPSCAuthKey
     else None)"

text \<open>
  The IPSC checks that precede them in both revisions.  \<open>LinkByName\<close> stands for
  \<open>netlink.LinkByName\<close>: it tells whether the operating system has an interface of
  that name (\<open>err == nil\<close>).
\<close>

definition Validate_IPSC :: "(string \<Rightarrow> bool) \<Rightarrow> IPSC \<Rightarrow> error option" where
  "Validate_IPSC LinkByName i =
    (if Interface i = [] then Some ErrInvalidIPSCInterface
     else if \<not> LinkByName (Interface i) then Some ErrInvalidIPSCInterface
     else if IP i = [] then Some ErrInvalidIPSCIP
     else if SubnetMask i < 1 \<or> SubnetMask i > 32 then Some ErrInvalidIPSCSubnetMask
     else None)"

text \<open>First revision: the checks of lines 78--123, up to the auth-key checks.\<close>

definition Validate_before_auth :: "(string \<Rightarrow> bool) \<Rightarrow> Config \<Rightarrow> error option" where
  "Validate_before_auth LinkByName c =
    (if \<not> LogLevel_known (LogLevel c) then Some ErrInvalidLogLevel
     else if Callsign (HBRP c) = [] then Some ErrInvalidHBRPCallsign
     else if ColorCode (HBRP c) > 15 then Some ErrInvalidHBRPColorCode
     else if f64_less (Longitude (HBRP c)) (- 180) \<or> f64_greater (Longitude (HBRP c)) 180
       then Some ErrInvalidHBRPLongitude
     else if f64_less (Latitude (HBRP c)) (- 90) \<or> f64_greater (Latitude (HBRP c)) 90
       then Some ErrInvalidHBRPLatitude
     else if MasterServer (HBRP c) = [] then Some ErrInvalidHBRPMasterServer
     else if Password (HBRP c) = [] then Some ErrInvalidHBRPPassword
     else Validate_IPSC LinkByName (IPSC c))"

definition Validate :: "(string \<Rightarrow> bool) \<Rightarrow> Config \<Rightarrow> error option" where
  "Validate LinkByName c =
    (case Validate_before_auth LinkByName c of
       Some e \<Rightarrow> Some e
     | None \<Rightarrow> Validate_auth_key (Auth (IPSC c)))"

subsection \<open>Concrete configurations\<close>

text \<open>A host whose only interface is the loopback.\<close>

definition loopback_only :: "string \<Rightarrow> bool" where
  "loopback_only name = (name = ''lo'')"

definition ipsc_with_auth :: "bool \<Rightarrow> string \<Rightarrow> IPSC" where
  "ipsc_with_auth en k =
     \<lparr> Interface = ''lo'', Port = 50000, IP = ''10.10.250.1'', SubnetMask = 24,
       Auth = \<lparr> Enabled = en, Key = k \<rparr> \<rparr>"

definition hbrp_config :: HBRP where
  "hbrp_config =
     \<lparr> Callsign = ''N0CALL'', ID = 311860, RXFreq = 449000000, TXFreq = 444000000,
       TXPower = 50, ColorCode = 1, Latitude = Finite 35, Longitude = Finite (- 97),
       Height = 30, Location = ''Oklahoma'', Description = ''Test Repeater'',
       URL = ''https://example.com'', MasterServer = ''master.example.com:62030'',
       Password = ''s3cret'' \<rparr>"

definition config_with_auth :: "bool \<Rightarrow> string \<Rightarrow> Config" where
  "config_with_auth en k =
     \<lparr> LogLevel = ''info'', HBRP = hbrp_config, IPSC = ipsc_with_auth en k \<rparr>"

section \<open>Text formatting (the \<open>fmt\<close> verbs the handshake uses)\<close>

text \<open>
  \<open>fmt\<close> and \<open>unicode/utf8\<close> belong to Go's standard library.  The verbs that
  \<open>packets.go\<close> uses are modelled here after the library's documented behaviour.

  \<open>fmt\<close> measures a field width in runes (\<open>utf8.RuneCountInString\<close>), not in bytes.
  A byte below \<open>0x80\<close> is one rune.  A lead byte announces a sequence of 2, 3 or 4
  bytes and the range its second byte must lie in; a sequence that is cut short or
  has a continuation byte out of range counts its first byte as one rune.
\<close>

definition utf8_first :: "nat \<Rightarrow> (nat \<times> nat \<times> nat) option" where
  "utf8_first c =
    (if 0xC2 \<le> c \<and> c \<le> 0xDF then Some (2, 0x80, 0xBF)
     else if c = 0xE0 then Some (3, 0xA0, 0xBF)
     else if 0xE1 \<le> c \<and> c \<le> 0xEC then Some (3, 0x80, 0xBF)
     else if c = 0xED then Some (3, 0x80, 0x9F)
     else if 0xEE \<le> c \<and> c \<le> 0xEF then Some (3, 0x80, 0xBF)
     else if c = 0xF0 then Some (4, 0x90, 0xBF)
     else if 0xF1 \<le> c \<and> c \<le> 0xF3 then Some (4, 0x80, 0xBF)
     else if c = 0xF4 then Some (4, 0x80, 0x8F)
     else None)"

definition continuation_byte :: "char \<Rightarrow> bool" where
  "continuation_byte c = (0x80 \<le> (of_char c :: nat) \<and> (of_char c :: nat) \<le> 0xBF)"

text \<open>The number of bytes that the first rune of a non-empty string occupies.\<close>

definition rune_size :: "string \<Rightarrow> nat" where
  "rune_size s =
    (let c = (of_char (s ! 0) :: nat) in
     if c < 0x80 then 1
     else case utf8_first c of
       None \<Rightarrow> 1
     | Some (sz, lo, hi) \<Rightarrow>
         if sz > length s then 1
         else if (of_char (s ! 1) :: nat) < lo \<or> hi < (of_char (s ! 1) :: nat) then 1
         else if sz = 2 then 2
         else if \<not> continuation_byte (s ! 2) then 1
         else if sz = 3 then 3
         else if \<not> continuation_byte (s ! 3) then 1
         else sz)"

function RuneCountInString :: "string \<Rightarrow> nat" where
  "RuneCountInString [] = 0"
| "RuneCountInString (c # cs) = Suc (RuneCountInString (drop (rune_size (c # cs) - 1) cs))"
  by pat_completeness auto
termination
  by (relation "measure length") auto

text \<open>
  Unsigned integers: the digit loops of \<open>fmtInteger\<close> for bases 10 and 16 (lower
  case), which always produce at least one digit.
\<close>

definition ldigits :: string where
  "ldigits = ''0123456789abcdefx''"

fun decimal_digits :: "nat \<Rightarrow> string" where
  "decimal_digits u =
    (if u < 10 then [char_of (48 + u)]
     else decimal_digits (u div 10) @ [char_of (48 + u mod 10)])"

fun hex_digits :: "nat \<Rightarrow> string" where
  "hex_digits u =
    (if u < 16 then [ldigits ! u]
     else hex_digits (u div 16) @ [ldigits ! (u mod 16)])"

declare decimal_digits.simps [simp del]
declare hex_digits.simps [simp del]

text \<open>
  \<open>%0<wid>d\<close> and \<open>%0<wid>x\<close> on an unsigned value: zeros are put in front of the
  digits until there are \<open>wid\<close> of them; a longer number is not cut.
\<close>

definition Sprintf_0d :: "nat \<Rightarrow> nat \<Rightarrow> string" where
  "Sprintf_0d wid u =
    (let ds = decimal_digits u in replicate (wid - length ds) CHR ''0'' @ ds)"

definition Sprintf_0x :: "nat \<Rightarrow> nat \<Rightarrow> string" where
  "Sprintf_0x wid u =
    (let ds = hex_digits u in replicate (wid - length ds) CHR ''0'' @ ds)"

text \<open>\<open>%x\<close> on a byte slice: two lower-case hexadecimal digits per byte.\<close>

definition Sprintf_x_bytes :: "byte list \<Rightarrow> string" where
  "Sprintf_x_bytes bs =
    concat (map (\<lambda>b. [ldigits ! unat (drop_bit 4 b), ldigits ! unat (b AND 0xF)]) bs)"

text \<open>
  \<open>%-<wid>s\<close>: the string, then spaces until the field holds \<open>wid\<close> runes; a longer
  string is not cut.
\<close>

definition Sprintf_minus_s :: "nat \<Rightarrow> string \<Rightarrow> string" where
  "Sprintf_minus_s wid s = s @ replicate (wid - RuneCountInString s) CHR '' ''"

text \<open>
  \<open>%-0<wid>f\<close> on a \<open>float64\<close>: with the \<open>-\<close> flag the \<open>0\<close> flag is ignored, so the
  field is the \<open>%f\<close> rendering of the number followed by spaces up to \<open>wid\<close> runes.
  The rendering of the digits themselves (\<open>strconv\<close>'s shortest decimal with six
  fractional digits) is the parameter \<open>Sprintf_f\<close>.
\<close>

definition Sprintf_minus_0f :: "(float64 \<Rightarrow> string) \<Rightarrow> nat \<Rightarrow> float64 \<Rightarrow> string" where
  "Sprintf_minus_0f Sprintf_f wid x = Sprintf_minus_s wid (Sprintf_f x)"

section \<open>Handshake packets (package hbrp, \<open>packets.go\<close>)\<close>

text \<open>
  The client's channel \<open>connTX\<close> is the list of datagrams queued for the socket;
  \<open>h.connTX <- data\<close> appends one.  \<open>sha256_Sum\<close> stands for \<open>crypto/sha256\<close>: the
  digest of everything written to the hash.
\<close>

definition sendRPTK ::
  "(byte list \<Rightarrow> byte list) \<Rightarrow> Config \<Rightarrow> byte list \<Rightarrow> byte list list \<Rightarrow> byte list list" where
  "sendRPTK sha256_Sum config random connTX =
    (let token = bytes_of_string (Sprintf_x_bytes
                   (sha256_Sum (random @ bytes_of_string (Password (HBRP config)))));
         hexid = copy_go (replicate 8 (0 :: byte))
                   (bytes_of_string (Sprintf_0x 8 (unat (ID (HBRP config)))));
         data = replicate (length ''RPTK'' + 8 + 64) (0 :: byte);
         n = min (length data) (length ''RPTK'');
         data = copy_go data (bytes_of_string ''RPTK'');
         data = take n data @ copy_go (drop n data) hexid;
         data = take (n + 8) data @ copy_go (drop (n + 8) data) token
     in connTX @ [data])"

definition sendRPTC ::
  "(float64 \<Rightarrow> string) \<Rightarrow> Config \<Rightarrow> byte list list \<Rightarrow> byte list list" where
  "sendRPTC Sprintf_f config connTX =
    (let h = HBRP config;
         str = bytes_of_string ''RPTC'';
         str = str @ bytes_of_string (Sprintf_minus_s 8 (Callsign h));
         str = str @ bytes_of_string (Sprintf_0x 8 (unat (ID h)));
         str = str @ bytes_of_string (Sprintf_0d 9 (unat (RXFreq h)));
         str = str @ bytes_of_string (Sprintf_0d 9 (unat (TXFreq h)));
         str = str @ bytes_of_string (Sprintf_0d 2 (unat (TXPower h)));
         str = str @ bytes_of_string (Sprintf_0d 2 (unat (ColorCode h)));
         str = str @ bytes_of_string (take 8 (Sprintf_minus_0f Sprintf_f 8 (Latitude h)));
         str = str @ bytes_of_string (take 9 (Sprintf_minus_0f Sprintf_f 9 (Longitude h)));
         str = str @ bytes_of_string (Sprintf_0d 3 (unat (Height h)));
         str = str @ bytes_of_string (Sprintf_minus_s 20 (Location h));
         str = str @ bytes_of_string (Sprintf_minus_s 20 (Description h));
         str = str @ bytes_of_string (Sprintf_minus_s 124 (URL h));
         str = str @ bytes_of_string (Sprintf_minus_s 40 []);
         str = str @ bytes_of_string (Sprintf_minus_s 40 [])
     in connTX @ [str])"

subsection \<open>Reading the fields back\<close>

text \<open>
  What the receiving master reads in a numeric field: the value of a string of
  decimal digits (\<open>0\<close>--\<open>9\<close>, ASCII 48--57) or lower-case hexadecimal digits
  (also \<open>a\<close>--\<open>f\<close>, ASCII 97--102), most significant digit first.
\<close>

definition decimal_digit :: "char \<Rightarrow> bool" where
  "decimal_digit c = (48 \<le> (of_char c :: nat) \<and> (of_char c :: nat) \<le> 57)"

definition lower_hex_digit :: "char \<Rightarrow> bool" where
  "lower_hex_digit c =
    (48 \<le> (of_char c :: nat) \<and> (of_char c :: nat) \<le> 57 \<or>
     97 \<le> (of_char c :: nat) \<and> (of_char c :: nat) \<le> 102)"

definition digit_value :: "char \<Rightarrow> nat" where
  "digit_value c =
    (let n = (of_char c :: nat) in
     if 48 \<le> n \<and> n \<le> 57 then n - 48
     else if 97 \<le> n \<and> n \<le> 102 then n - 87
     else 0)"

definition digits_value :: "nat \<Rightarrow> string \<Rightarrow> nat" where
  "digits_value base s = foldl (\<lambda>a c. a * base + digit_value c) 0 s"

fun pairs :: "'a list \<Rightarrow> 'a list list" where
  "pairs (a # b # xs) = [a, b] # pairs xs"
| "pairs xs = []"

definition ascii_string :: "string \<Rightarrow> bool" where
  "ascii_string s = list_all (\<lambda>c. (of_char c :: nat) < 0x80) s"

text \<open>The fields that \<open>sendRPTC\<close> appends to \<open>str\<close>, in order.\<close>

definition RPTC_fields :: "(float64 \<Rightarrow> string) \<Rightarrow> HBRP \<Rightarrow> string list" where
  "RPTC_fields Sprintf_f h =
    [''RPTC'',
     Sprintf_minus_s 8 (Callsign h),
     Sprintf_0x 8 (unat (ID h)),
     Sprintf_0d 9 (unat (RXFreq h)),
     Sprintf_0d 9 (unat (TXFreq h)),
     Sprintf_0d 2 (unat (TXPower h)),
     Sprintf_0d 2 (unat (ColorCode h)),
     take 8 (Sprintf_minus_0f Sprintf_f 8 (Latitude h)),
     take 9 (Sprintf_minus_0f Sprintf_f 9 (Longitude h)),
     Sprintf_0d 3 (unat (Height h)),
     Sprintf_minus_s 20 (Location h),
     Sprintf_minus_s 20 (Description h),
     Sprintf_minus_s 124 (URL h),
     Sprintf_minus_s 40 [],
     Sprintf_minus_s 40 []]"

subsection \<open>Concrete handshake inputs\<close>

text \<open>
  A stand-in for \<open>crypto/sha256\<close> with a digest of the right size, and the \<open>%f\<close>
  renderings of the two coordinates of \<open>hbrp_config\<close>.
\<close>

definition counting_digest :: "byte list \<Rightarrow> byte list" where
  "counting_digest msg = map (\<lambda>i. of_nat (length msg + i)) [0..<32]"

definition sample_Sprintf_f :: "float64 \<Rightarrow> string" where
  "sample_Sprintf_f x =
    (if x = Finite 35 then ''35.000000''
     else if x = Finite (- 97) then ''-97.000000''
     else ''NaN'')"

text \<open>The location \<open>Z\<close>, u-umlaut (the two bytes \<open>C3 BC\<close> in UTF-8), \<open>rich\<close>.\<close>

definition zurich :: string where
  "zurich = [CHR ''Z'', CHR 0xC3, CHR 0xBC, CHR ''r'', CHR ''i'', CHR ''c'', CHR ''h'']"

definition zurich_config :: Config where
  "zurich_config =
     \<lparr> LogLevel = ''info'', HBRP = hbrp_config \<lparr> Location := zurich \<rparr>,
       IPSC = ipsc_with_auth False [] \<rparr>"

subsection \<open>Second revision: several MMDVM networks with rewrite rules\<close>

record TGRewriteConfig =
  FromSlot :: uint
  FromTG :: uint
  ToSlot :: uint
  ToTG :: uint
  Range :: uint

record PCRewriteConfig =
  FromSlot :: uint
  FromID :: uint
  ToSlot :: uint
  ToID :: uint
  Range :: uint

record TypeRewriteConfig =
  FromSlot :: uint
  FromTG :: uint
  ToSlot :: uint
  ToID :: uint
  Range :: uint

record SrcRewriteConfig =
  FromSlot :: uint
  FromID :: uint
  ToSlot :: uint
  ToTG :: uint
  Range :: uint

record MMDVM =
  Name :: string
  Callsign :: string
  ID :: "32 word"
  RXFreq :: uint
  TXFreq :: uint
  TXPower :: byte
  ColorCode :: byte
  Latitude :: float64
  Longitude :: float64
  Height :: "16 word"
  Location :: string
  Description :: string
  URL :: string
  Slots :: byte
  MasterServer :: string
  Password :: string
  TGRewrites :: "TGRewriteConfig list"
  PCRewrites :: "PCRewriteConfig list"
  TypeRewrites :: "TypeRewriteConfig list"
  SrcRewrites :: "SrcRewriteConfig list"

record Config2 =
  LogLevel :: string
  MMDVM :: "MMDVM list"
  IPSC :: IPSC

definition validateSlot :: "uint \<Rightarrow> bool" where
  "validateSlot slot = (slot = 1 \<or> slot = 2)"

text \<open>
  Each of the four loops of \<open>validateRewrites\<close> has the same body; it is written once,
  over the three fields it reads.
\<close>

fun validate_rules :: "('r \<Rightarrow> uint) \<Rightarrow> ('r \<Rightarrow> uint) \<Rightarrow> ('r \<Rightarrow> uint) \<Rightarrow> 'r list \<Rightarrow> error option" where
  "validate_rules fromSlot toSlot rng [] = None"
| "validate_rules fromSlot toSlot rng (r # rs) =
    (if \<not> validateSlot (fromSlot r) \<or> \<not> validateSlot (toSlot r) then Some ErrInvalidRewriteSlot
     else if rng r < 1 then Some ErrInvalidRewriteRange
     else validate_rules fromSlot toSlot rng rs)"

definition validateRewrites :: "MMDVM \<Rightarrow> error option" where
  "validateRewrites h =
    (case validate_rules TGRewriteConfig.FromSlot TGRewriteConfig.ToSlot TGRewriteConfig.Range
            (TGRewrites h) of
       Some e \<Rightarrow> Some e
     | None \<Rightarrow>
    (case validate_rules PCRewriteConfig.FromSlot PCRewriteConfig.ToSlot PCRewriteConfig.Range
            (PCRewrites h) of
       Some e \<Rightarrow> Some e
     | None \<Rightarrow>
    (case validate_rules TypeRewriteConfig.FromSlot TypeRewriteConfig.ToSlot
            TypeRewriteConfig.Range (TypeRewrites h) of
       Some e \<Rightarrow> Some e
     | None \<Rightarrow>
       validate_rules SrcRewriteConfig.FromSlot SrcRewriteConfig.ToSlot SrcRewriteConfig.Range
            (SrcRewrites h))))"

text \<open>
  The loop over \<open>c.MMDVM\<close>; \<open>names\<close> is the set of network names seen so far.
\<close>

fun validate_networks :: "string set \<Rightarrow> MMDVM list \<Rightarrow> error option" where
  "validate_networks names [] = None"
| "validate_networks names (h # hs) =
    (if Name h = [] then Some ErrInvalidMMDVMName
     else if Name h \<in> names then Some ErrDuplicateMMDVMName
     else if MMDVM.Callsign h = [] then Some ErrInvalidMMDVMCallsign
     else if MMDVM.ColorCode h > 15 then Some ErrInvalidMMDVMColorCode
     else if f64_less (MMDVM.Longitude h) (- 180) \<or> f64_greater (MMDVM.Longitude h) 180
       then Some ErrInvalidMMDVMLongitude
     else if f64_less (MMDVM.Latitude h) (- 90) \<or> f64_greater (MMDVM.Latitude h) 90
       then Some ErrInvalidMMDVMLatitude
     else if MMDVM.MasterServer h = [] then Some ErrInvalidMMDVMMasterServer
     else if MMDVM.Password h = [] then Some ErrInvalidMMDVMPassword
     else (case validateRewrites h of
             Some e \<Rightarrow> Some e
           | None \<Rightarrow> validate_networks (insert (Name h) names) hs))"

text \<open>Second revision: the checks of lines 267--335, up to the auth-key checks.\<close>

definition Validate2_before_auth :: "(string \<Rightarrow> bool) \<Rightarrow> Config2 \<Rightarrow> error option" where
  "Validate2_before_auth LinkByName c =
    (if \<not> LogLevel_known (Config2.LogLevel c) then Some ErrInvalidLogLevel
     else if length (MMDVM c) = 0 then Some ErrNoMMDVMNetworks
     else (case validate_networks {} (MMDVM c) of
             Some e \<Rightarrow> Some e
           | None \<Rightarrow> Validate_IPSC LinkByName (Config2.IPSC c)))"

definition Validate2 :: "(string \<Rightarrow> bool) \<Rightarrow> Config2 \<Rightarrow> error option" where
  "Validate2 LinkByName c =
    (case Validate2_before_auth LinkByName c of
       Some e \<Rightarrow> Some e
     | None \<Rightarrow> Validate_auth_key (Auth (Config2.IPSC c)))"

subsection \<open>A concrete configuration of the second revision\<close>

definition mmdvm_network :: MMDVM where
  "mmdvm_network =
     \<lparr> Name = ''BM'', Callsign = ''N0CALL'', ID = 12345, RXFreq = 0, TXFreq = 0,
       TXPower = 0, ColorCode = 7, Latitude = Finite 30, Longitude = Finite (- 97),
       Height = 0, Location = [], Description = [], URL = [], Slots = 3,
       MasterServer = ''master.example.com:62030'', Password = ''password'',
       TGRewrites = [\<lparr> TGRewriteConfig.FromSlot = 1, TGRewriteConfig.FromTG = 9,
         TGRewriteConfig.ToSlot = 2, TGRewriteConfig.ToTG = 100, TGRewriteConfig.Range = 1 \<rparr>],
       PCRewrites = [], TypeRewrites = [], SrcRewrites = [] \<rparr>"

definition config2_with_auth :: "bool \<Rightarrow> string \<Rightarrow> Config2" where
  "config2_with_auth en k =
     \<lparr> LogLevel = ''info'', MMDVM = [mmdvm_network], IPSC = ipsc_with_auth en k \<rparr>"

section \<open>The IPSC translator (package ipsc)\<close>

text \<open>
  Modelled from the spec: \<open>translator.go\<close> (the type \<open>IPSCTranslator\<close> with
  \<open>TranslateToIPSC\<close>, \<open>TranslateToHBRP\<close>, \<open>CleanupStream\<close> and \<open>SetPeerID\<close>) is not
  among the sources; only \<open>translator_test.go\<close> is.  The definitions of this section
  follow sections 3 and 4.C of the specification, and the tests where the
  specification is silent.  The specification leaves three things to the IPSC
  dialect: which burst types are voice bursts and which voice sequence each carries,
  which burst type a DMRD voice sequence is sent as, and where the 33 payload bytes
  sit in an IPSC datagram.  They are the fields of \<open>dialect\<close>.
\<close>

type_synonym u32 = "32 word"

record dialect =
  voice_letter :: "byte \<Rightarrow> uint option"
  voice_burst :: "uint \<Rightarrow> byte"
  payload_of :: "byte list \<Rightarrow> byte list"

text \<open>
  Modelled from the spec: the fields that section 4.C.1 fixes for every emitted IPSC
  packet (\<open>translator.go\<close> is missing): packet type (byte 0), peer ID (bytes 1--4),
  source and destination (bytes 6--11), call-type byte (12), call control (13--16),
  call-info byte (17), the marker bit of byte 19, the burst type (byte 30) and the
  payload that follows.
\<close>

record IPSCPacket =
  ipsc_type :: byte
  ipsc_peer :: u32
  ipsc_src :: uint
  ipsc_dst :: uint
  ipsc_call_type :: byte
  ipsc_call_control :: u32
  ipsc_call_info :: byte
  ipsc_marker :: bool
  ipsc_burst :: byte
  ipsc_payload :: "byte list"

text \<open>
  Modelled from the spec: the two stream states of section 3 (\<open>translator.go\<close> is
  missing).  The forward state is keyed by the DMRD stream ID, the reverse state by
  the IPSC call control.
\<close>

record forward_stream =
  fwd_call_control :: u32
  fwd_slot :: bool
  fwd_group :: bool
  fwd_src :: uint
  fwd_dst :: uint
  fwd_voice_seq :: nat

record reverse_stream =
  rev_stream_id :: u32
  rev_slot :: bool
  rev_group :: bool
  rev_src :: uint
  rev_dst :: uint
  rev_seq :: nat
  rev_header_emitted :: bool

record IPSCTranslator =
  streams :: "u32 \<rightharpoonup> forward_stream"
  reverseStreams :: "u32 \<rightharpoonup> reverse_stream"
  peerID :: u32
  repeaterID :: u32

text \<open>
  Modelled from the spec: \<open>NewIPSCTranslator\<close>, \<open>SetPeerID\<close> and \<open>CleanupStream\<close> of the
  missing \<open>translator.go\<close>, as the tests use them: a new translator has two empty
  maps, \<open>SetPeerID\<close> sets both IDs, \<open>CleanupStream\<close> removes a forward stream.
\<close>

definition NewIPSCTranslator :: IPSCTranslator where
  "NewIPSCTranslator =
     \<lparr> streams = Map.empty, reverseStreams = Map.empty, peerID = 0, repeaterID = 0 \<rparr>"

definition SetPeerID :: "u32 \<Rightarrow> IPSCTranslator \<Rightarrow> IPSCTranslator" where
  "SetPeerID n t = t \<lparr> peerID := n, repeaterID := n \<rparr>"

definition CleanupStream :: "u32 \<Rightarrow> IPSCTranslator \<Rightarrow> IPSCTranslator" where
  "CleanupStream sid t = t \<lparr> streams := (streams t)(sid := None) \<rparr>"

text \<open>
  Modelled from the spec: \<open>extractFullLCBytes\<close> of the missing \<open>translator.go\<close>
  (section 4.C.1): FLCO \<open>0x00\<close> for a group call and \<open>0x03\<close> for unit-to-unit, two
  reserved zero bytes, destination and source as big-endian 24-bit values.
\<close>

definition extractFullLCBytes :: "Packet \<Rightarrow> byte list" where
  "extractFullLCBytes p =
    [if GroupCall p then 0x00 else 0x03, 0, 0,
     ucast (drop_bit 16 (Dst p)), ucast (drop_bit 8 (Dst p)), ucast (Dst p),
     ucast (drop_bit 16 (Src p)), ucast (drop_bit 8 (Src p)), ucast (Src p)]"

text \<open>
  Modelled from the spec: the header every emitted IPSC packet carries (section
  4.C.1; \<open>translator.go\<close> is missing): the local peer ID, the frame's source and
  destination, the stream's call control, \<open>0x20\<close> in the call-info byte for time
  slot 2 and \<open>0x40\<close> on a terminator; voice packets have type \<open>0x80\<close> (group) or
  \<open>0x81\<close> (private), data packets \<open>0x83\<close> or \<open>0x84\<close>; the call-type byte is \<open>0x02\<close>
  or \<open>0x01\<close>.
\<close>

definition buildIPSCPacket ::
  "IPSCTranslator \<Rightarrow> Packet \<Rightarrow> forward_stream \<Rightarrow> bool \<Rightarrow> bool \<Rightarrow> bool \<Rightarrow> byte \<Rightarrow> byte list
     \<Rightarrow> IPSCPacket" where
  "buildIPSCPacket t p st is_data is_end marker burst body =
     \<lparr> ipsc_type = (if is_data then (if GroupCall p then 0x83 else 0x84)
                     else (if GroupCall p then 0x80 else 0x81)),
       ipsc_peer = peerID t,
       ipsc_src = Src p,
       ipsc_dst = Dst p,
       ipsc_call_type = (if GroupCall p then 0x02 else 0x01),
       ipsc_call_control = fwd_call_control st,
       ipsc_call_info = (if Slot p then 0x20 else 0x00) OR (if is_end then 0x40 else 0x00),
       ipsc_marker = marker,
       ipsc_burst = burst,
       ipsc_payload = body \<rparr>"

text \<open>
  Modelled from the spec: the forward stream state created on the first frame of a
  call (section 3; \<open>translator.go\<close> is missing).  \<open>rnd\<close> is the 32-bit value that the
  random allocator hands out for this call.
\<close>

definition new_forward_stream :: "u32 \<Rightarrow> Packet \<Rightarrow> forward_stream" where
  "new_forward_stream rnd p =
     \<lparr> fwd_call_control = rnd, fwd_slot = Slot p, fwd_group = GroupCall p,
       fwd_src = Src p, fwd_dst = Dst p, fwd_voice_seq = 0 \<rparr>"

definition forward_stream_of :: "u32 \<Rightarrow> IPSCTranslator \<Rightarrow> Packet \<Rightarrow> forward_stream" where
  "forward_stream_of rnd t p =
    (case streams t (ucast (StreamID p)) of
       Some st \<Rightarrow> st
     | None \<Rightarrow> new_forward_stream rnd p)"

text \<open>
  Modelled from the spec: \<open>TranslateToIPSC\<close> of the missing \<open>translator.go\<close> (section
  4.C.1).  Frame type 2 gives one voice burst; frame type 1 gives three voice-head
  packets (burst type \<open>0x01\<close>, the marker on the first only) for data type 1, one
  terminator (burst type \<open>0x02\<close>, end flag) for data type 2, after which the stream
  state is destroyed, and one CSBK data packet (burst type \<open>0x07\<close>) for data type 3;
  anything else gives no output.  The result is the new translator state and the
  packets.
\<close>

definition TranslateToIPSC ::
  "dialect \<Rightarrow> u32 \<Rightarrow> IPSCTranslator \<Rightarrow> Packet \<Rightarrow> IPSCTranslator \<times> IPSCPacket list" where
  "TranslateToIPSC d rnd t p =
    (let sid = (ucast (StreamID p) :: u32) in
     if FrameType p = 2 then
       let st = forward_stream_of rnd t p;
           st = st \<lparr> fwd_voice_seq := fwd_voice_seq st + 1 \<rparr>
       in (t \<lparr> streams := (streams t)(sid \<mapsto> st) \<rparr>,
           [buildIPSCPacket t p st False False False (voice_burst d (DTypeOrVSeq p)) (DMRData p)])
     else if FrameType p = 1 then
       (if DTypeOrVSeq p = 1 then
          let st = new_forward_stream rnd p;
              lc = extractFullLCBytes p
          in (t \<lparr> streams := (streams t)(sid \<mapsto> st) \<rparr>,
              [buildIPSCPacket t p st False False True 0x01 lc,
               buildIPSCPacket t p st False False False 0x01 lc,
               buildIPSCPacket t p st False False False 0x01 lc])
        else if DTypeOrVSeq p = 2 then
          let st = forward_stream_of rnd t p
          in (t \<lparr> streams := (streams t)(sid := None) \<rparr>,
              [buildIPSCPacket t p st False True False 0x02 []])
        else if DTypeOrVSeq p = 3 then
          let st = forward_stream_of rnd t p
          in (t \<lparr> streams := (streams t)(sid \<mapsto> st) \<rparr>,
              [buildIPSCPacket t p st True False False 0x07 []])
        else (t, []))
     else (t, []))"

text \<open>
  Modelled from the spec: the fields of the fixed IPSC prefix that the reverse
  direction reads (section 3; \<open>translator.go\<close> is missing): source in bytes 6--8,
  destination in 9--11, call control in 13--16, slot in bit 5 and end-of-call in
  bit 6 of byte 17, burst type in byte 30.
\<close>

definition ipsc_src_of :: "byte list \<Rightarrow> uint" where
  "ipsc_src_of data =
     push_bit 16 (ucast (data ! 6)) OR push_bit 8 (ucast (data ! 7)) OR ucast (data ! 8)"

definition ipsc_dst_of :: "byte list \<Rightarrow> uint" where
  "ipsc_dst_of data =
     push_bit 16 (ucast (data ! 9)) OR push_bit 8 (ucast (data ! 10)) OR ucast (data ! 11)"

definition ipsc_call_control_of :: "byte list \<Rightarrow> u32" where
  "ipsc_call_control_of data =
     push_bit 24 (ucast (data ! 13)) OR push_bit 16 (ucast (data ! 14))
       OR push_bit 8 (ucast (data ! 15)) OR ucast (data ! 16)"

definition ipsc_slot_of :: "byte list \<Rightarrow> bool" where
  "ipsc_slot_of data = bit (data ! 17) 5"

definition ipsc_end_of :: "byte list \<Rightarrow> bool" where
  "ipsc_end_of data = bit (data ! 17) 6"

definition ipsc_burst_of :: "byte list \<Rightarrow> byte" where
  "ipsc_burst_of data = data ! 30"

definition traffic_type :: "byte \<Rightarrow> bool" where
  "traffic_type packetType =
     (packetType = 0x80 \<or> packetType = 0x81 \<or> packetType = 0x83 \<or> packetType = 0x84)"

text \<open>
  Modelled from the spec: the reverse stream state created on the first voice-head
  or CSBK burst of a call (section 3; \<open>translator.go\<close> is missing).  \<open>rnd\<close> is the
  random 32-bit DMRD stream ID allocated for the call; types \<open>0x80\<close> and \<open>0x83\<close> are
  group traffic.
\<close>

definition new_reverse_stream :: "u32 \<Rightarrow> byte \<Rightarrow> byte list \<Rightarrow> bool \<Rightarrow> reverse_stream" where
  "new_reverse_stream rnd packetType data header =
     \<lparr> rev_stream_id = rnd, rev_slot = ipsc_slot_of data,
       rev_group = (packetType = 0x80 \<or> packetType = 0x83),
       rev_src = ipsc_src_of data, rev_dst = ipsc_dst_of data, rev_seq = 0,
       rev_header_emitted = header \<rparr>"

text \<open>
  Modelled from the spec: the DMRD frame emitted for a reverse stream (section
  4.C.2; \<open>translator.go\<close> is missing): signature \<open>DMRD\<close>, the running sequence
  counter, and the recorded source, destination, slot, call type and stream ID.
\<close>

definition reverse_frame ::
  "dialect \<Rightarrow> IPSCTranslator \<Rightarrow> reverse_stream \<Rightarrow> uint \<Rightarrow> uint \<Rightarrow> byte list \<Rightarrow> Packet" where
  "reverse_frame d t st ft dt data =
     \<lparr> Signature = ''DMRD'', Seq = of_nat (rev_seq st), Src = rev_src st, Dst = rev_dst st,
       Repeater = ucast (repeaterID t), Slot = rev_slot st, GroupCall = rev_group st,
       FrameType = ft, DTypeOrVSeq = dt, StreamID = ucast (rev_stream_id st),
       DMRData = payload_of d data \<rparr>"

definition bump_seq :: "reverse_stream \<Rightarrow> reverse_stream" where
  "bump_seq st = st \<lparr> rev_seq := rev_seq st + 1 \<rparr>"

text \<open>
  Modelled from the spec: the dispatch of \<open>TranslateToHBRP\<close> on the burst type
  (section 4.C.2; \<open>translator.go\<close> is missing).  A voice head for a call control
  without reverse state allocates the state and emits one frame (frame type 1, data
  type 1); with state it emits nothing.  A terminator emits one frame (data type 2)
  and destroys the state.  A CSBK emits one frame (data type 3).  A voice burst of a
  known call emits one voice frame (frame type 2).  Anything else emits nothing.
\<close>

definition dispatch_burst ::
  "dialect \<Rightarrow> u32 \<Rightarrow> IPSCTranslator \<Rightarrow> byte \<Rightarrow> byte list \<Rightarrow> IPSCTranslator \<times> Packet list" where
  "dispatch_burst d rnd t packetType data =
    (let cc = ipsc_call_control_of data;
         burst = ipsc_burst_of data
     in
     if burst = 0x01 then
       (case reverseStreams t cc of
          None \<Rightarrow>
            let st = new_reverse_stream rnd packetType data True
            in (t \<lparr> reverseStreams := (reverseStreams t)(cc \<mapsto> bump_seq st) \<rparr>,
                [reverse_frame d t st 1 1 data])
        | Some st \<Rightarrow> (t, []))
     else if burst = 0x02 then
       let st = (case reverseStreams t cc of
                   Some st \<Rightarrow> st
                 | None \<Rightarrow> new_reverse_stream rnd packetType data False)
       in (t \<lparr> reverseStreams := (reverseStreams t)(cc := None) \<rparr>,
           [reverse_frame d t st 1 2 data])
     else if burst = 0x07 then
       let st = (case reverseStreams t cc of
                   Some st \<Rightarrow> st
                 | None \<Rightarrow> new_reverse_stream rnd packetType data False)
       in (t \<lparr> reverseStreams := (reverseStreams t)(cc \<mapsto> bump_seq st) \<rparr>,
           [reverse_frame d t st 1 3 data])
     else
       (case voice_letter d burst of
          None \<Rightarrow> (t, [])
        | Some letter \<Rightarrow>
            (case reverseStreams t cc of
               None \<Rightarrow> (t, [])
             | Some st \<Rightarrow>
                 (t \<lparr> reverseStreams := (reverseStreams t)(cc \<mapsto> bump_seq st) \<rparr>,
                  [reverse_frame d t st 2 letter data]))))"

text \<open>
  Modelled from the spec: \<open>TranslateToHBRP\<close> of the missing \<open>translator.go\<close> (section
  4.C.2): only the traffic types \<open>0x80\<close>, \<open>0x81\<close>, \<open>0x83\<close>, \<open>0x84\<close> and datagrams of at
  least 54 bytes are translated; after the dispatch, a set end-of-call flag (bit 6 of
  byte 17) destroys the reverse state whatever the burst type was.
\<close>

definition TranslateToHBRP ::
  "dialect \<Rightarrow> u32 \<Rightarrow> IPSCTranslator \<Rightarrow> byte \<Rightarrow> byte list \<Rightarrow> IPSCTranslator \<times> Packet list" where
  "TranslateToHBRP d rnd t packetType data =
    (if \<not> traffic_type packetType then (t, [])
     else if length data < 54 then (t, [])
     else
       let (t1, out) = dispatch_burst d rnd t packetType data;
           t2 = (if ipsc_end_of data
                 then t1 \<lparr> reverseStreams := (reverseStreams t1)(ipsc_call_control_of data := None) \<rparr>
                 else t1)
       in (t2, out))"

text \<open>
  A run of \<open>TranslateToHBRP\<close> over consecutive datagrams, each with the random draw
  available to it; the result lists the frames emitted for each datagram.
\<close>

fun TranslateToHBRP_run ::
  "dialect \<Rightarrow> IPSCTranslator \<Rightarrow> (u32 \<times> byte \<times> byte list) list \<Rightarrow> Packet list list" where
  "TranslateToHBRP_run d t [] = []"
| "TranslateToHBRP_run d t ((rnd, packetType, data) # rest) =
    (let (t', out) = TranslateToHBRP d rnd t packetType data
     in out # TranslateToHBRP_run d t' rest)"

text \<open>
  A voice-head datagram of the call \<open>cc\<close> that does not carry the end-of-call flag.
\<close>

definition voice_head_of :: "u32 \<Rightarrow> u32 \<times> byte \<times> byte list \<Rightarrow> bool" where
  "voice_head_of cc x =
    (case x of (rnd, packetType, data) \<Rightarrow>
       traffic_type packetType \<and> 54 \<le> length data \<and> ipsc_burst_of data = 0x01 \<and>
       ipsc_call_control_of data = cc \<and> \<not> ipsc_end_of data)"

subsection \<open>Concrete translator inputs\<close>

text \<open>
  The translator and the datagram of \<open>TestTranslateToHBRPDuplicateHeaderSkipped\<close>
  (type \<open>0x80\<close>, peer 99999, source 100, destination 200, call control \<open>0xAAAA\<close>,
  burst type \<open>0x01\<close>), the same datagram with the end-of-call flag, and a dialect.
\<close>

definition test_translator :: IPSCTranslator where
  "test_translator = SetPeerID 12345 NewIPSCTranslator"

definition test_voice_head :: "byte \<Rightarrow> byte list" where
  "test_voice_head call_info =
     [0x80, 0x00, 0x01, 0x86, 0x9F, 0x00, 0x00, 0x00, 0x64, 0x00, 0x00, 0xC8, 0x02,
      0x00, 0x00, 0xAA, 0xAA, call_info, 0x80] @ replicate 11 0x00 @ [0x01] @ replicate 23 0x00"

definition test_dialect :: dialect where
  "test_dialect =
     \<lparr> voice_letter = (\<lambda>b. if 0x08 \<le> b \<and> b \<le> 0x0D then Some (ucast (b - 0x08)) else None),
       voice_burst = (\<lambda>v. 0x08 + ucast v),
       payload_of = (\<lambda>data. take 33 (drop 31 data @ replicate 33 0)) \<rparr>"

definition test_header_frame :: Packet where
  "test_header_frame =
     \<lparr> Signature = ''DMRD'', Seq = 0, Src = 100, Dst = 200, Repeater = 3001,
       Slot = False, GroupCall = True, FrameType = 1, DTypeOrVSeq = 1,
       StreamID = 0x1234, DMRData = replicate 33 0 \<rparr>"

section \<open>The DMRD codec: proofs\<close>

lemma rep53: "replicate 53 (0::byte) = replicate 4 0 @ replicate 16 0 @ replicate 33 0"
  by (simp add: replicate_add [symmetric])

lemma length_copy_go [simp]: "length (copy_go dst src) = length dst"
  by (simp add: copy_go_def)

lemma copy_go_same_length: "length src = length dst \<Longrightarrow> copy_go dst src = src"
  by (simp add: copy_go_def)

lemma Encode_layout:
  "Encode p =
     copy_go (replicate 4 0) (bytes_of_string (Signature p)) @
     [ucast (Seq p),
      ucast (drop_bit 16 (Src p)), ucast (drop_bit 8 (Src p)), ucast (Src p),
      ucast (drop_bit 16 (Dst p)), ucast (drop_bit 8 (Dst p)), ucast (Dst p),
      ucast (drop_bit 24 (Repeater p)), ucast (drop_bit 16 (Repeater p)),
      ucast (drop_bit 8 (Repeater p)), ucast (Repeater p),
      Encode_bits p,
      ucast (drop_bit 24 (StreamID p)), ucast (drop_bit 16 (StreamID p)),
      ucast (drop_bit 8 (StreamID p)), ucast (StreamID p)] @
     copy_go (replicate 33 0) (DMRData p)"
  unfolding Encode_def Let_def rep53
  apply (simp add: list_update_append)
  apply (simp add: numeral_eq_Suc)
  done

lemma length_Encode: "length (Encode p) = 53"
  by (simp add: Encode_layout)

lemma take4_Encode: "take 4 (Encode p) = copy_go (replicate 4 0) (bytes_of_string (Signature p))"
  by (simp add: Encode_layout)

lemma payload_Encode: "take 33 (drop 20 (Encode p)) = copy_go (replicate 33 0) (DMRData p)"
  by (simp add: Encode_layout)

lemma nth_Encode:
  "Encode p ! 4 = ucast (Seq p)"
  "Encode p ! 5 = ucast (drop_bit 16 (Src p))"
  "Encode p ! 6 = ucast (drop_bit 8 (Src p))"
  "Encode p ! 7 = ucast (Src p)"
  "Encode p ! 8 = ucast (drop_bit 16 (Dst p))"
  "Encode p ! 9 = ucast (drop_bit 8 (Dst p))"
  "Encode p ! 10 = ucast (Dst p)"
  "Encode p ! 11 = ucast (drop_bit 24 (Repeater p))"
  "Encode p ! 12 = ucast (drop_bit 16 (Repeater p))"
  "Encode p ! 13 = ucast (drop_bit 8 (Repeater p))"
  "Encode p ! 14 = ucast (Repeater p)"
  "Encode p ! 15 = Encode_bits p"
  "Encode p ! 16 = ucast (drop_bit 24 (StreamID p))"
  "Encode p ! 17 = ucast (drop_bit 16 (StreamID p))"
  "Encode p ! 18 = ucast (drop_bit 8 (StreamID p))"
  "Encode p ! 19 = ucast (StreamID p)"
  by (simp_all add: Encode_layout nth_append)

lemma be8: "ucast (ucast x :: byte) = take_bit 8 (x :: uint)"
  by (rule bit_eqI) (auto simp: bit_simps)

lemma be24: "push_bit 16 (ucast (ucast (drop_bit 16 x) :: byte)) OR push_bit 8 (ucast (ucast (drop_bit 8 x) :: byte)) OR ucast (ucast x :: byte) = take_bit 24 (x::uint)"
proof (rule bit_eqI)
  fix n :: nat
  consider "n < 8" | "8 \<le> n \<and> n < 16" | "16 \<le> n \<and> n < 24" | "24 \<le> n" by linarith
  then show "bit (push_bit 16 (ucast (ucast (drop_bit 16 x) :: byte)) OR push_bit 8 (ucast (ucast (drop_bit 8 x) :: byte)) OR ucast (ucast x :: byte) :: uint) n = bit (take_bit 24 (x::uint)) n"
    by cases (auto simp: bit_simps)
qed

lemma be32: "push_bit 24 (ucast (ucast (drop_bit 24 x) :: byte)) OR push_bit 16 (ucast (ucast (drop_bit 16 x) :: byte)) OR push_bit 8 (ucast (ucast (drop_bit 8 x) :: byte)) OR ucast (ucast x :: byte) = take_bit 32 (x::uint)"
proof (rule bit_eqI)
  fix n :: nat
  consider "n < 8" | "8 \<le> n \<and> n < 16" | "16 \<le> n \<and> n < 24" | "24 \<le> n \<and> n < 32" | "32 \<le> n" by linarith
  then show "bit (push_bit 24 (ucast (ucast (drop_bit 24 x) :: byte)) OR push_bit 16 (ucast (ucast (drop_bit 16 x) :: byte)) OR push_bit 8 (ucast (ucast (drop_bit 8 x) :: byte)) OR ucast (ucast x :: byte) :: uint) n = bit (take_bit 32 (x::uint)) n"
    by cases (auto simp: bit_simps)
qed

lemma bit_byte_2: "bit (2 :: byte) n = (n = 1)"
  by (auto simp add: bit_2_iff)
lemma bit_uint_3: "bit (3 :: uint) n = (n < 2)"
  using bit_mask_iff [of 2 n, where 'a = uint] by (auto simp add: mask_numeral)
lemma bit_uint_15: "bit (15 :: uint) n = (n < 4)"
  using bit_mask_iff [of 4 n, where 'a = uint] by (auto simp add: mask_numeral)
lemma bit_Encode_bits:
  "bit (Encode_bits p) n =
     (if n = 0 then Slot p else if n = 1 then \<not> GroupCall p
      else if n < 4 then bit (FrameType p) (n - 2)
      else n < 8 \<and> bit (DTypeOrVSeq p) (n - 4))"
proof -
  have *: "bit (ucast (push_bit 2 (FrameType p AND 0x3)) :: byte) n = (2 \<le> n \<and> n < 4 \<and> bit (FrameType p) (n - 2))"
    by (simp only: bit_simps bit_uint_3) auto
  have **: "bit (ucast (push_bit 4 (DTypeOrVSeq p AND 0xF)) :: byte) n = (4 \<le> n \<and> n < 8 \<and> bit (DTypeOrVSeq p) (n - 4))"
    by (simp only: bit_simps bit_uint_15) auto
  show ?thesis
  unfolding Encode_bits_def Let_def
  by (simp only: bit_or_iff * ** bit_byte_2 bit_1_iff if_distrib [of "\<lambda>w. bit w n"] ) (auto simp: bit_simps)
qed

lemma and_1_neq_0: "(b AND 0x1 \<noteq> 0) = bit (b :: byte) 0"
  by (simp add: and_one_eq bit_0 mod_2_eq_odd)
lemma and_2_neq_0: "(b AND 0x2 \<noteq> 0) = bit (b :: byte) 1"
proof (cases "bit b 1")
  case True
  hence "bit (b AND 2) 1" by (simp only: bit_and_iff bit_byte_2)
  hence "b AND 2 \<noteq> 0" by auto
  with True show ?thesis by simp
next
  case False
  have "b AND 2 = 0"
    by (rule bit_eqI) (use False in \<open>simp only: bit_and_iff bit_byte_2, auto\<close>)
  with False show ?thesis by simp
qed
lemma bit_byte_12: "bit (12 :: byte) n = (n = 2 \<or> n = 3)"
proof -
  have "(12 :: byte) = push_bit 2 (mask 2)" by (simp add: mask_numeral)
  thus ?thesis by (simp only: bit_simps) auto
qed
lemma bit_byte_240: "bit (240 :: byte) n = (4 \<le> n \<and> n < 8)"
proof -
  have "(240 :: byte) = push_bit 4 (mask 4)" by (simp add: mask_numeral)
  thus ?thesis by (simp only: bit_simps) auto
qed
lemma bit_Decode_FrameType:
  "bit (ucast (drop_bit 2 (b AND 0xC :: byte)) :: uint) n = (n < 2 \<and> bit b (n + 2))"
  by (simp only: bit_simps o_apply bit_byte_12) auto
lemma bit_Decode_DType:
  "bit (ucast (drop_bit 4 (b AND 0xF0 :: byte)) :: uint) n = (n < 4 \<and> bit b (n + 4))"
  by (simp only: bit_simps o_apply bit_byte_240) (auto simp: add.commute)
lemma bit_ucast_take_drop:
  "bit (ucast (take_bit 2 (drop_bit 2 (b :: byte))) :: uint) n = (n < 2 \<and> bit b (n + 2))"
  by (auto simp: bit_ucast_iff bit_take_bit_iff bit_drop_bit_eq add.commute)
lemma bit_ucast_drop4:
  "bit (ucast (drop_bit 4 (b :: byte)) :: uint) n = (n < 4 \<and> bit b (n + 4))"
  by (auto simp: bit_ucast_iff bit_drop_bit_eq add.commute dest: bit_imp_le_length)
lemma Decode_FrameType_eq:
  "(ucast (drop_bit 2 (b AND 0xC :: byte)) :: uint) = ucast (take_bit 2 (drop_bit 2 b))"
  by (rule bit_eqI) (simp only: bit_Decode_FrameType, simp only: bit_ucast_take_drop)
lemma Decode_DType_eq:
  "(ucast (drop_bit 4 (b AND 0xF0 :: byte)) :: uint) = ucast (drop_bit 4 b)"
  by (rule bit_eqI) (simp only: bit_Decode_DType, simp only: bit_ucast_drop4)
lemma roundtrip_FrameType:
  "(ucast (drop_bit 2 (Encode_bits p AND 0xC)) :: uint) = take_bit 2 (FrameType p)"
  by (rule bit_eqI) (simp only: bit_Decode_FrameType bit_Encode_bits bit_take_bit_iff, auto)
lemma roundtrip_DType:
  "(ucast (drop_bit 4 (Encode_bits p AND 0xF0)) :: uint) = take_bit 4 (DTypeOrVSeq p)"
  by (rule bit_eqI) (simp only: bit_Decode_DType bit_Encode_bits bit_take_bit_iff, auto)

lemma unat_take_bit_uint: "unat (take_bit k (x::uint)) = unat x mod 2^k"
  unfolding unsigned_take_bit_eq by (rule take_bit_eq_mod)

lemma take_bit_uint_id: "unat x < 2^k \<Longrightarrow> take_bit k (x::uint) = x"
  by (simp add: word_unat_eq_iff unat_take_bit_uint)

lemma unat_of_char_byte: "unat (of_char c :: byte) = of_char c"
proof -
  have "(of_char c :: byte) = of_nat (of_char c)" by (simp only: of_nat_of_char)
  hence "unat (of_char c :: byte) = of_char c mod 2 ^ LENGTH(8)"
    by (simp only: unat_of_nat)
  also have "\<dots> = of_char c" using nat_of_char_less_256 [of c] by simp
  finally show ?thesis .
qed

lemma string_of_bytes_of_string: "string_of_bytes (bytes_of_string s) = s"
  by (induction s) (simp_all add: string_of_bytes_def bytes_of_string_def unat_of_char_byte)

lemma length_bytes_of_string [simp]: "length (bytes_of_string s) = length s"
  by (simp add: bytes_of_string_def)

lemma Decode_in_window:
  assumes "53 \<le> length data" "length data \<le> 55"
  shows "Decode data = Some \<lparr>
         Signature = string_of_bytes (take 4 data),
         Seq = ucast (data ! 4),
         Src = push_bit 16 (ucast (data ! 5)) OR push_bit 8 (ucast (data ! 6))
                 OR ucast (data ! 7),
         Dst = push_bit 16 (ucast (data ! 8)) OR push_bit 8 (ucast (data ! 9))
                 OR ucast (data ! 10),
         Repeater = push_bit 24 (ucast (data ! 11)) OR push_bit 16 (ucast (data ! 12))
                 OR push_bit 8 (ucast (data ! 13)) OR ucast (data ! 14),
         Slot = bit (data ! 15) 0,
         GroupCall = (\<not> bit (data ! 15) 1),
         FrameType = ucast (take_bit 2 (drop_bit 2 (data ! 15))),
         DTypeOrVSeq = ucast (drop_bit 4 (data ! 15)),
         StreamID = push_bit 24 (ucast (data ! 16)) OR push_bit 16 (ucast (data ! 17))
                 OR push_bit 8 (ucast (data ! 18)) OR ucast (data ! 19),
         DMRData = take 33 (drop 20 data) \<rparr>"
proof -
  have len: "length (take 33 (drop 20 data)) = 33" using assms by (auto simp: min_def)
  have cp: "copy_go (replicate 33 0) (take 33 (drop 20 data)) = take 33 (drop 20 data)"
    by (rule copy_go_same_length) (simp only: len length_replicate)
  show ?thesis
    unfolding Decode_def Let_def
    using assms
    by (simp only: cp and_1_neq_0 and_2_neq_0 Decode_FrameType_eq Decode_DType_eq) simp
qed

lemma Decode_Encode:
  "Decode (Encode p) = Some \<lparr>
         Signature = string_of_bytes (copy_go (replicate 4 0) (bytes_of_string (Signature p))),
         Seq = take_bit 8 (Seq p),
         Src = take_bit 24 (Src p),
         Dst = take_bit 24 (Dst p),
         Repeater = take_bit 32 (Repeater p),
         Slot = Slot p,
         GroupCall = GroupCall p,
         FrameType = take_bit 2 (FrameType p),
         DTypeOrVSeq = take_bit 4 (DTypeOrVSeq p),
         StreamID = take_bit 32 (StreamID p),
         DMRData = copy_go (replicate 33 0) (DMRData p) \<rparr>"
proof -
  have cp: "copy_go (replicate 33 0) (copy_go (replicate 33 0) (DMRData p))
              = copy_go (replicate 33 0) (DMRData p)"
    by (rule copy_go_same_length) simp
  show ?thesis
    unfolding Decode_def Let_def
    by (simp only: length_Encode nth_Encode take4_Encode payload_Encode cp be32
          roundtrip_FrameType roundtrip_DType and_1_neq_0 and_2_neq_0 bit_Encode_bits,
        simp only: be24, simp only: be8)
       simp
qed

lemma Decode_None_iff: "(Decode data = None) = (length data < 53 \<or> 55 < length data)"
  by (simp add: Decode_def Let_def)

text \<open>
  Claim C1: for every DMRD frame whose fields are in their valid ranges (4-byte
  signature, seq below 256, src and dst below \<open>2^24\<close>, repeater below \<open>2^32\<close>,
  frameType at most 3, dTypeOrVSeq at most 15, and the stream ID a 32-bit value, as
  the data model defines it), \<open>Encode\<close> yields exactly 53 bytes and \<open>Decode\<close> of
  them succeeds and returns the same frame.
\<close>

theorem C1_roundtrip:
  assumes "length (Signature f) = 4"
    and "unat (Seq f) < 256"
    and "unat (Src f) < 2 ^ 24" and "unat (Dst f) < 2 ^ 24"
    and "unat (Repeater f) < 2 ^ 32"
    and "unat (FrameType f) \<le> 3" and "unat (DTypeOrVSeq f) \<le> 15"
    and "unat (StreamID f) < 2 ^ 32"
    and "DMRData_is_array f"
  shows "length (Encode f) = 53 \<and> Decode (Encode f) = Some f"
proof -
  have sig: "string_of_bytes (copy_go (replicate 4 0) (bytes_of_string (Signature f)))
               = Signature f"
    using assms(1) by (simp add: copy_go_same_length string_of_bytes_of_string)
  have dmr: "copy_go (replicate 33 0) (DMRData f) = DMRData f"
    using assms(9) by (simp add: copy_go_same_length DMRData_is_array_def)
  have "unat (Seq f) < 2 ^ 8" "unat (FrameType f) < 2 ^ 2" "unat (DTypeOrVSeq f) < 2 ^ 4"
    using assms(2,6,7) by simp_all
  hence tb: "take_bit 8 (Seq f) = Seq f" "take_bit 2 (FrameType f) = FrameType f"
    "take_bit 4 (DTypeOrVSeq f) = DTypeOrVSeq f"
    "take_bit 24 (Src f) = Src f" "take_bit 24 (Dst f) = Dst f"
    "take_bit 32 (Repeater f) = Repeater f" "take_bit 32 (StreamID f) = StreamID f"
    using assms(3,4,5,8) by (simp_all only: take_bit_uint_id)
  have "Decode (Encode f) = Some f"
    by (simp only: Decode_Encode sig dmr tb) simp
  thus ?thesis by (simp add: length_Encode)
qed

text \<open>
  Witness for C1: the frame the repository's round-trip test uses (\<open>samplePacket\<close>)
  satisfies every hypothesis.
\<close>

theorem C1_roundtrip_witness:
  "length (Signature sample_frame) = 4 \<and> unat (Seq sample_frame) < 256 \<and>
   unat (Src sample_frame) < 2 ^ 24 \<and> unat (Dst sample_frame) < 2 ^ 24 \<and>
   unat (Repeater sample_frame) < 2 ^ 32 \<and> unat (FrameType sample_frame) \<le> 3 \<and>
   unat (DTypeOrVSeq sample_frame) \<le> 15 \<and> unat (StreamID sample_frame) < 2 ^ 32 \<and>
   DMRData_is_array sample_frame \<and>
   length (Encode sample_frame) = 53 \<and> Decode (Encode sample_frame) = Some sample_frame"
proof -
  have h: "length (Signature sample_frame) = 4" "unat (Seq sample_frame) < 256"
    "unat (Src sample_frame) < 2 ^ 24" "unat (Dst sample_frame) < 2 ^ 24"
    "unat (Repeater sample_frame) < 2 ^ 32" "unat (FrameType sample_frame) \<le> 3"
    "unat (DTypeOrVSeq sample_frame) \<le> 15" "unat (StreamID sample_frame) < 2 ^ 32"
    "DMRData_is_array sample_frame"
    by (simp_all add: sample_frame_def DMRData_is_array_def)
  from C1_roundtrip [OF h] h show ?thesis by simp
qed

text \<open>
  Claim C3: \<open>Encode\<close> packs byte 15 with bit 0 = slot, bit 1 set iff the call is not
  a group call, bits 2--3 = \<open>frameType & 0x3\<close> and bits 4--7 = \<open>dTypeOrVSeq & 0xF\<close>;
  \<open>Decode\<close> reads the fields back from the same positions of any accepted datagram
  (\<open>GroupCall\<close> is true iff bit 1 is clear), and so reverses the packing.
\<close>

theorem C3_flags_byte:
  "(bit (Encode p ! 15) 0 = Slot p) \<and>
   (bit (Encode p ! 15) 1 = (\<not> GroupCall p)) \<and>
   take_bit 2 (drop_bit 2 (Encode p ! 15)) = ucast (FrameType p AND 0x3) \<and>
   drop_bit 4 (Encode p ! 15) = ucast (DTypeOrVSeq p AND 0xF) \<and>
   (53 \<le> length data \<and> length data \<le> 55 \<longrightarrow>
      map_option Slot (Decode data) = Some (bit (data ! 15) 0) \<and>
      map_option GroupCall (Decode data) = Some (\<not> bit (data ! 15) 1) \<and>
      map_option FrameType (Decode data) = Some (ucast (take_bit 2 (drop_bit 2 (data ! 15)))) \<and>
      map_option DTypeOrVSeq (Decode data) = Some (ucast (drop_bit 4 (data ! 15)))) \<and>
   map_option Slot (Decode (Encode p)) = Some (Slot p) \<and>
   map_option GroupCall (Decode (Encode p)) = Some (GroupCall p) \<and>
   map_option FrameType (Decode (Encode p)) = Some (FrameType p AND 0x3) \<and>
   map_option DTypeOrVSeq (Decode (Encode p)) = Some (DTypeOrVSeq p AND 0xF)"
proof -
  have b0: "bit (Encode p ! 15) 0 = Slot p"
    by (simp only: nth_Encode bit_Encode_bits) simp
  have b1: "bit (Encode p ! 15) 1 = (\<not> GroupCall p)"
    by (simp only: nth_Encode bit_Encode_bits) simp
  have ft: "take_bit 2 (drop_bit 2 (Encode p ! 15)) = ucast (FrameType p AND 0x3)"
  proof (rule bit_eqI)
    fix n :: nat
    have "bit (ucast (FrameType p AND 0x3) :: byte) n = (n < 2 \<and> bit (FrameType p) n)"
      by (simp only: bit_ucast_iff bit_and_iff bit_uint_3) auto
    moreover have "bit (take_bit 2 (drop_bit 2 (Encode p ! 15))) n
                     = (n < 2 \<and> bit (FrameType p) n)"
      by (simp only: nth_Encode bit_take_bit_iff bit_drop_bit_eq o_apply bit_Encode_bits) auto
    ultimately show "bit (take_bit 2 (drop_bit 2 (Encode p ! 15))) n
                       = bit (ucast (FrameType p AND 0x3) :: byte) n" by simp
  qed
  have dt: "drop_bit 4 (Encode p ! 15) = ucast (DTypeOrVSeq p AND 0xF)"
  proof (rule bit_eqI)
    fix n :: nat
    have "bit (ucast (DTypeOrVSeq p AND 0xF) :: byte) n = (n < 4 \<and> bit (DTypeOrVSeq p) n)"
      by (simp only: bit_ucast_iff bit_and_iff bit_uint_15) auto
    moreover have "bit (drop_bit 4 (Encode p ! 15)) n = (n < 4 \<and> bit (DTypeOrVSeq p) n)"
      by (simp only: nth_Encode bit_drop_bit_eq o_apply bit_Encode_bits) auto
    ultimately show "bit (drop_bit 4 (Encode p ! 15)) n
                       = bit (ucast (DTypeOrVSeq p AND 0xF) :: byte) n" by simp
  qed
  have dec: "53 \<le> length data \<and> length data \<le> 55 \<longrightarrow>
      map_option Slot (Decode data) = Some (bit (data ! 15) 0) \<and>
      map_option GroupCall (Decode data) = Some (\<not> bit (data ! 15) 1) \<and>
      map_option FrameType (Decode data) = Some (ucast (take_bit 2 (drop_bit 2 (data ! 15)))) \<and>
      map_option DTypeOrVSeq (Decode data) = Some (ucast (drop_bit 4 (data ! 15)))"
    by (simp add: Decode_in_window)
  have m3: "take_bit 2 (FrameType p) = FrameType p AND 0x3"
    by (simp add: take_bit_eq_mask mask_numeral)
  have m15: "take_bit 4 (DTypeOrVSeq p) = DTypeOrVSeq p AND 0xF"
    by (simp add: take_bit_eq_mask mask_numeral)
  have rt: "map_option Slot (Decode (Encode p)) = Some (Slot p)"
    "map_option GroupCall (Decode (Encode p)) = Some (GroupCall p)"
    "map_option FrameType (Decode (Encode p)) = Some (FrameType p AND 0x3)"
    "map_option DTypeOrVSeq (Decode (Encode p)) = Some (DTypeOrVSeq p AND 0xF)"
    by (simp_all add: Decode_Encode m3 m15)
  from b0 b1 ft dt dec rt show ?thesis by (intro conjI)
qed

text \<open>
  Witness for C3: slot 2, private call, frame type 2 and voice sequence 5 give the
  flags byte \<open>0x5B\<close>, and decoding the 53 encoded bytes returns the four fields.
\<close>

theorem C3_flags_byte_witness:
  "Encode bitfield_frame ! 15 = 0x5B \<and>
   53 \<le> length (Encode bitfield_frame) \<and> length (Encode bitfield_frame) \<le> 55 \<and>
   map_option Slot (Decode (Encode bitfield_frame)) = Some True \<and>
   map_option GroupCall (Decode (Encode bitfield_frame)) = Some False \<and>
   map_option FrameType (Decode (Encode bitfield_frame)) = Some 2 \<and>
   map_option DTypeOrVSeq (Decode (Encode bitfield_frame)) = Some 5"
proof -
  have byte15: "Encode bitfield_frame ! 15 = 0x5B"
    by (simp add: nth_Encode Encode_bits_def bitfield_frame_def)
  have len: "53 \<le> length (Encode bitfield_frame) \<and> length (Encode bitfield_frame) \<le> 55"
    by (simp add: length_Encode)
  from C3_flags_byte [of bitfield_frame "Encode bitfield_frame"] len
  have "map_option Slot (Decode (Encode bitfield_frame)) = Some (bit (Encode bitfield_frame ! 15) 0)"
    "map_option GroupCall (Decode (Encode bitfield_frame)) = Some (\<not> bit (Encode bitfield_frame ! 15) 1)"
    "map_option FrameType (Decode (Encode bitfield_frame))
       = Some (ucast (take_bit 2 (drop_bit 2 (Encode bitfield_frame ! 15))))"
    "map_option DTypeOrVSeq (Decode (Encode bitfield_frame))
       = Some (ucast (drop_bit 4 (Encode bitfield_frame ! 15)))"
    by blast+
  with byte15 len show ?thesis by (simp add: length_Encode)
qed

lemma of_char_char_of_byte: "(of_char (char_of (unat b)) :: byte) = b"
proof -
  have lt: "unat b < 256" using unsigned_less [of b, where 'a = nat] by simp
  have "(of_char (char_of (unat b)) :: nat) = unat b mod 256" by (rule of_char_of)
  hence "(of_char (char_of (unat b)) :: nat) = unat b" using lt by simp
  hence "of_nat (of_char (char_of (unat b)) :: nat) = (of_nat (unat b) :: byte)"
    by (rule arg_cong)
  moreover have "(of_nat (unat b) :: byte) = b" by simp
  ultimately show ?thesis by (simp only: of_nat_of_char)
qed

lemma bytes_of_string_of_bytes: "bytes_of_string (string_of_bytes bs) = bs"
  by (induction bs) (simp_all add: string_of_bytes_def bytes_of_string_def of_char_char_of_byte)

text \<open>
  Claim C4: \<open>Decode\<close> succeeds exactly on inputs of 53, 54 or 55 bytes, and on a 54-
  or 55-byte input it returns what it returns on the first 53 bytes.
\<close>

theorem C4_accept_window:
  "(Decode data \<noteq> None) = (length data = 53 \<or> length data = 54 \<or> length data = 55) \<and>
   (length data = 54 \<or> length data = 55 \<longrightarrow> Decode data = Decode (take 53 data))"
proof -
  have a: "(Decode data \<noteq> None) = (length data = 53 \<or> length data = 54 \<or> length data = 55)"
    by (simp add: Decode_None_iff) arith
  have b: "Decode data = Decode (take 53 data)" if "length data = 54 \<or> length data = 55"
  proof -
    have w: "53 \<le> length data" "length data \<le> 55" using that by auto
    have w': "53 \<le> length (take 53 data)" "length (take 53 data) \<le> 55" using that by auto
    have pay: "take 33 (drop 20 (take 53 data)) = take 33 (drop 20 data)"
      by (simp add: drop_take)
    show ?thesis
      by (simp only: Decode_in_window [OF w] Decode_in_window [OF w'] pay) simp
  qed
  from a b show ?thesis by blast
qed

text \<open>
  Witness for C4: a 55-byte datagram is accepted and decodes like its 53-byte prefix.
\<close>

theorem C4_accept_window_witness:
  "length trailing_datagram = 55 \<and> Decode trailing_datagram \<noteq> None \<and>
   Decode trailing_datagram = Decode (take 53 trailing_datagram)"
proof -
  have len: "length trailing_datagram = 55" by (simp add: trailing_datagram_def)
  note w = C4_accept_window [of trailing_datagram]
  from w [THEN conjunct1] len have ok: "Decode trailing_datagram \<noteq> None" by simp
  from w len have eq: "Decode trailing_datagram = Decode (take 53 trailing_datagram)"
    by blast
  from len ok eq show ?thesis by (intro conjI)
qed

text \<open>
  Claim C8: for every packet, \<open>Decode (Encode p)\<close> succeeds and returns the numeric
  fields reduced modulo their wire widths (seq mod \<open>2^8\<close>, src and dst mod \<open>2^24\<close>,
  repeater and stream ID mod \<open>2^32\<close>, frameType mod 4, dTypeOrVSeq mod 16), with slot,
  group-call flag and the 33 payload bytes unchanged.
\<close>

theorem C8_truncation:
  assumes "DMRData_is_array p"
  shows "\<exists>q. Decode (Encode p) = Some q \<and>
     unat (Seq q) = unat (Seq p) mod 2 ^ 8 \<and>
     unat (Src q) = unat (Src p) mod 2 ^ 24 \<and>
     unat (Dst q) = unat (Dst p) mod 2 ^ 24 \<and>
     unat (Repeater q) = unat (Repeater p) mod 2 ^ 32 \<and>
     unat (FrameType q) = unat (FrameType p) mod 4 \<and>
     unat (DTypeOrVSeq q) = unat (DTypeOrVSeq p) mod 16 \<and>
     unat (StreamID q) = unat (StreamID p) mod 2 ^ 32 \<and>
     Slot q = Slot p \<and> GroupCall q = GroupCall p \<and> DMRData q = DMRData p"
proof -
  have dmr: "copy_go (replicate 33 0) (DMRData p) = DMRData p"
    using assms by (simp add: copy_go_same_length DMRData_is_array_def)
  have "unat (take_bit 2 (FrameType p)) = unat (FrameType p) mod 4"
    "unat (take_bit 4 (DTypeOrVSeq p)) = unat (DTypeOrVSeq p) mod 16"
    by (simp_all only: unat_take_bit_uint) simp_all
  thus ?thesis
    by (simp only: Decode_Encode dmr) (simp add: unat_take_bit_uint)
qed

text \<open>
  Witness for C8: a packet whose every numeric field exceeds its wire width.
\<close>

theorem C8_truncation_witness:
  "DMRData_is_array oversized_frame \<and>
   (\<exists>q. Decode (Encode oversized_frame) = Some q \<and>
     unat (Seq q) = 255 \<and> unat (Src q) = 1 \<and> unat (Dst q) = 2 \<and>
     unat (Repeater q) = 3 \<and> unat (FrameType q) = 2 \<and> unat (DTypeOrVSeq q) = 15 \<and>
     unat (StreamID q) = 4 \<and> Slot q \<and> \<not> GroupCall q \<and>
     DMRData q = replicate 33 0x55)"
proof -
  have h: "DMRData_is_array oversized_frame"
    by (simp add: oversized_frame_def DMRData_is_array_def)
  from C8_truncation [OF h] h show ?thesis
    by (simp add: oversized_frame_def)
qed

text \<open>
  Claim C9: \<open>Decode\<close> does not validate the signature: every input of 53, 54 or 55
  bytes is accepted and the \<open>Signature\<close> field is the first four bytes, whatever
  they are.
\<close>

theorem C9_no_signature_check:
  assumes "53 \<le> length data" and "length data \<le> 55"
  shows "map_option Signature (Decode data) = Some (string_of_bytes (take 4 data)) \<and>
         map_option (bytes_of_string \<circ> Signature) (Decode data) = Some (take 4 data)"
  by (simp add: Decode_in_window [OF assms] bytes_of_string_of_bytes)

text \<open>
  Witness for C9: a 53-byte datagram starting with \<open>XXXX\<close> decodes with that signature.
\<close>

theorem C9_no_signature_check_witness:
  "53 \<le> length unsigned_datagram \<and> length unsigned_datagram \<le> 55 \<and>
   map_option Signature (Decode unsigned_datagram) = Some ''XXXX''"
proof -
  have h: "53 \<le> length unsigned_datagram" "length unsigned_datagram \<le> 55"
    by (simp_all add: unsigned_datagram_def)
  have "string_of_bytes (take 4 unsigned_datagram) = ''XXXX''"
    by (simp add: unsigned_datagram_def string_of_bytes_of_string)
  with C9_no_signature_check [OF h] h show ?thesis by simp
qed

section \<open>Configuration validation: proofs\<close>

lemma Validate_before_auth_sample:
  "Validate_before_auth loopback_only (config_with_auth en k) = None"
  by (simp add: Validate_before_auth_def Validate_IPSC_def config_with_auth_def
        hbrp_config_def ipsc_with_auth_def loopback_only_def LogLevel_known_def)

lemma Validate2_before_auth_sample:
  "Validate2_before_auth loopback_only (config2_with_auth en k) = None"
  by (simp add: Validate2_before_auth_def Validate_IPSC_def config2_with_auth_def
        mmdvm_network_def ipsc_with_auth_def loopback_only_def LogLevel_known_def
        validateRewrites_def validateSlot_def)

lemma Auth_sample [simp]:
  "Auth (Config.IPSC (config_with_auth en k)) = \<lparr> Enabled = en, Key = k \<rparr>"
  "Auth (Config2.IPSC (config2_with_auth en k)) = \<lparr> Enabled = en, Key = k \<rparr>"
  by (simp_all add: config_with_auth_def config2_with_auth_def ipsc_with_auth_def)

lemma Validate_after_checks:
  "Validate_before_auth L c = None \<Longrightarrow> Validate L c = Validate_auth_key (Auth (Config.IPSC c))"
  by (simp add: Validate_def)

lemma Validate2_after_checks:
  "Validate2_before_auth L c = None \<Longrightarrow> Validate2 L c = Validate_auth_key (Auth (Config2.IPSC c))"
  by (simp add: Validate2_def)

lemma Validate_auth_key_enabled:
  "Enabled a \<Longrightarrow>
     (Validate_auth_key a = Some ErrInvalidIPSCAuthKey) = (Key a = [] \<or> \<not> authkey_MatchString (Key a))"
  "Enabled a \<Longrightarrow>
     (Validate_auth_key a = None) = (Key a \<noteq> [] \<and> authkey_MatchString (Key a))"
  by (simp_all add: Validate_auth_key_def)

lemma Validate_auth_key_mismatch:
  "\<not> authkey_MatchString (Key a) \<Longrightarrow> Validate_auth_key a = Some ErrInvalidIPSCAuthKey"
  by (simp add: Validate_auth_key_def)

lemma authkey_MatchString_empty: "authkey_MatchString []"
  by (simp add: authkey_MatchString_def)

text \<open>
  Claim C7, as stated, fails: with authentication enabled the empty key matches
  \<open>^[0-9a-fA-F]{0,40}$\<close> (zero hexadecimal characters), the configuration passes every
  earlier check, and \<open>Validate\<close> still returns \<open>ErrInvalidIPSCAuthKey\<close>, from the
  guard \<open>c.IPSC.Auth.Enabled && c.IPSC.Auth.Key == ""\<close>.
\<close>

theorem C7_counterexample:
  "Validate_before_auth loopback_only (config_with_auth True []) = None \<and>
   Enabled (Auth (Config.IPSC (config_with_auth True []))) \<and>
   authkey_MatchString (Key (Auth (Config.IPSC (config_with_auth True [])))) \<and>
   Validate loopback_only (config_with_auth True []) = Some ErrInvalidIPSCAuthKey"
  by (simp add: Validate_before_auth_sample Validate_after_checks authkey_MatchString_empty
        Validate_auth_key_def)

text \<open>
  Claim C7 (amended): for every configuration that passes all validation checks
  preceding the auth-key checks (including the interface lookup) and has IPSC
  authentication enabled, \<open>Validate\<close> returns \<open>ErrInvalidIPSCAuthKey\<close> exactly when the
  key is empty or does not match \<open>^[0-9a-fA-F]{0,40}$\<close>; every key of 1 to 40
  hexadecimal characters is accepted (\<open>Validate\<close> returns nil).  Both revisions of
  \<open>config.go\<close> behave so.
\<close>

theorem C7_auth_key_enabled:
  "(Validate_before_auth L c = None \<and> Enabled (Auth (Config.IPSC c)) \<longrightarrow>
      ((Validate L c = Some ErrInvalidIPSCAuthKey) =
         (Key (Auth (Config.IPSC c)) = [] \<or> \<not> authkey_MatchString (Key (Auth (Config.IPSC c))))) \<and>
      ((Validate L c = None) =
         (Key (Auth (Config.IPSC c)) \<noteq> [] \<and> authkey_MatchString (Key (Auth (Config.IPSC c)))))) \<and>
   (Validate2_before_auth L c2 = None \<and> Enabled (Auth (Config2.IPSC c2)) \<longrightarrow>
      ((Validate2 L c2 = Some ErrInvalidIPSCAuthKey) =
         (Key (Auth (Config2.IPSC c2)) = [] \<or> \<not> authkey_MatchString (Key (Auth (Config2.IPSC c2))))) \<and>
      ((Validate2 L c2 = None) =
         (Key (Auth (Config2.IPSC c2)) \<noteq> [] \<and> authkey_MatchString (Key (Auth (Config2.IPSC c2))))))"
  by (simp add: Validate_after_checks Validate2_after_checks Validate_auth_key_enabled)

text \<open>
  Witness for C7: the key \<open>deadbeef\<close> of the repository's test, with authentication
  enabled, is accepted by both revisions on a host that has the interface.
\<close>

theorem C7_auth_key_enabled_witness:
  "Validate_before_auth loopback_only (config_with_auth True ''deadbeef'') = None \<and>
   Validate2_before_auth loopback_only (config2_with_auth True ''deadbeef'') = None \<and>
   authkey_MatchString ''deadbeef'' \<and>
   Validate loopback_only (config_with_auth True ''deadbeef'') = None \<and>
   Validate2 loopback_only (config2_with_auth True ''deadbeef'') = None"
proof -
  have m: "authkey_MatchString ''deadbeef''"
    by (simp add: authkey_MatchString_def hex_class_def)
  from C7_auth_key_enabled [of loopback_only "config_with_auth True ''deadbeef''"
      "config2_with_auth True ''deadbeef''"] m
  show ?thesis
    by (simp add: Validate_before_auth_sample Validate2_before_auth_sample)
qed

text \<open>
  Claim C10: the auth-key pattern is applied even when IPSC authentication is
  disabled: a configuration that passes all earlier checks, has authentication
  disabled and a key that does not match \<open>^[0-9a-fA-F]{0,40}$\<close> is rejected with
  \<open>ErrInvalidIPSCAuthKey\<close>, in both revisions of \<open>config.go\<close>.
\<close>

theorem C10_auth_key_disabled:
  "(Validate_before_auth L c = None \<and> \<not> Enabled (Auth (Config.IPSC c)) \<and>
      \<not> authkey_MatchString (Key (Auth (Config.IPSC c))) \<longrightarrow>
      Validate L c = Some ErrInvalidIPSCAuthKey) \<and>
   (Validate2_before_auth L c2 = None \<and> \<not> Enabled (Auth (Config2.IPSC c2)) \<and>
      \<not> authkey_MatchString (Key (Auth (Config2.IPSC c2))) \<longrightarrow>
      Validate2 L c2 = Some ErrInvalidIPSCAuthKey)"
  by (simp add: Validate_after_checks Validate2_after_checks Validate_auth_key_mismatch)

text \<open>
  Witness for C10: with authentication disabled, the non-hexadecimal key \<open>ZZZZ\<close> is
  rejected by the first revision and a key of 41 hexadecimal digits by the second.
\<close>

theorem C10_auth_key_disabled_witness:
  "Validate_before_auth loopback_only (config_with_auth False ''ZZZZ'') = None \<and>
   \<not> authkey_MatchString ''ZZZZ'' \<and>
   Validate loopback_only (config_with_auth False ''ZZZZ'') = Some ErrInvalidIPSCAuthKey \<and>
   Validate2_before_auth loopback_only (config2_with_auth False (replicate 41 CHR ''a'')) = None \<and>
   \<not> authkey_MatchString (replicate 41 CHR ''a'') \<and>
   Validate2 loopback_only (config2_with_auth False (replicate 41 CHR ''a''))
     = Some ErrInvalidIPSCAuthKey"
proof -
  have m: "\<not> authkey_MatchString ''ZZZZ''" "\<not> authkey_MatchString (replicate 41 CHR ''a'')"
    by (simp_all add: authkey_MatchString_def hex_class_def)
  from C10_auth_key_disabled [of loopback_only "config_with_auth False ''ZZZZ''"
      "config2_with_auth False (replicate 41 CHR ''a'')"] m
  show ?thesis
    by (simp add: Validate_before_auth_sample Validate2_before_auth_sample)
qed

section \<open>Formatting and handshake packets: proofs\<close>

lemma rune_size_ascii: "(of_char c :: nat) < 0x80 \<Longrightarrow> rune_size (c # cs) = 1"
  by (simp add: rune_size_def)

lemma RuneCount_ascii: "ascii_string s \<Longrightarrow> RuneCountInString s = length s"
  by (induction s) (simp_all add: ascii_string_def rune_size_ascii)

lemma RuneCount_le_length: "RuneCountInString s \<le> length s"
proof (induction s rule: RuneCountInString.induct)
  case 1
  show ?case by simp
next
  case (2 c cs)
  have "RuneCountInString (drop (rune_size (c # cs) - 1) cs) \<le> length cs"
    using 2 by (simp add: le_diff_conv)
  thus ?case by simp
qed

lemma length_Sprintf_minus_s_ascii:
  "ascii_string s \<Longrightarrow> length s \<le> w \<Longrightarrow> length (Sprintf_minus_s w s) = w"
  by (simp add: Sprintf_minus_s_def RuneCount_ascii)

lemma Sprintf_minus_s_ascii:
  "ascii_string s \<Longrightarrow> Sprintf_minus_s w s = s @ replicate (w - length s) CHR '' ''"
  by (simp add: Sprintf_minus_s_def RuneCount_ascii)

lemma length_Sprintf_minus_s_ge: "w \<le> length (Sprintf_minus_s w s)"
  using RuneCount_le_length [of s] by (simp add: Sprintf_minus_s_def)

lemma take_Sprintf_minus_s:
  "take w (Sprintf_minus_s w s) = take w (s @ replicate w CHR '' '')"
proof (cases "w \<le> length s")
  case True
  thus ?thesis by (simp add: Sprintf_minus_s_def)
next
  case False
  hence l: "length s < w" by simp
  have r: "RuneCountInString s \<le> length s" by (rule RuneCount_le_length)
  have "take w (Sprintf_minus_s w s) = s @ replicate (w - length s) CHR '' ''"
    using l r by (simp add: Sprintf_minus_s_def min_def)
  moreover have "take w (s @ replicate w CHR '' '') = s @ replicate (w - length s) CHR '' ''"
    using l by (simp add: min_def)
  ultimately show ?thesis by simp
qed

lemma length_decimal_digits: "0 < w \<Longrightarrow> u < 10 ^ w \<Longrightarrow> length (decimal_digits u) \<le> w"
proof (induction u arbitrary: w rule: decimal_digits.induct)
  case (1 u)
  show ?case
  proof (cases "u < 10")
    case True
    thus ?thesis using "1.prems" by (simp add: decimal_digits.simps [of u])
  next
    case False
    obtain v where w: "w = Suc v" using "1.prems"(1) by (cases w) auto
    have "v \<noteq> 0" using False "1.prems"(2) w by (cases v) auto
    hence v: "0 < v" by simp
    have "u div 10 < 10 ^ v" using "1.prems"(2) w by (simp add: less_mult_imp_div_less mult.commute)
    from "1.IH" [OF False v this] show ?thesis
      using False w by (simp add: decimal_digits.simps [of u])
  qed
qed

lemma length_hex_digits: "0 < w \<Longrightarrow> u < 16 ^ w \<Longrightarrow> length (hex_digits u) \<le> w"
proof (induction u arbitrary: w rule: hex_digits.induct)
  case (1 u)
  show ?case
  proof (cases "u < 16")
    case True
    thus ?thesis using "1.prems" by (simp add: hex_digits.simps [of u])
  next
    case False
    obtain v where w: "w = Suc v" using "1.prems"(1) by (cases w) auto
    have "v \<noteq> 0" using False "1.prems"(2) w by (cases v) auto
    hence v: "0 < v" by simp
    have "u div 16 < 16 ^ v" using "1.prems"(2) w by (simp add: less_mult_imp_div_less mult.commute)
    from "1.IH" [OF False v this] show ?thesis
      using False w by (simp add: hex_digits.simps [of u])
  qed
qed

lemma length_Sprintf_0d: "0 < w \<Longrightarrow> u < 10 ^ w \<Longrightarrow> length (Sprintf_0d w u) = w"
  using length_decimal_digits [of w u] by (simp add: Sprintf_0d_def Let_def)

lemma length_Sprintf_0x: "0 < w \<Longrightarrow> u < 16 ^ w \<Longrightarrow> length (Sprintf_0x w u) = w"
  using length_hex_digits [of w u] by (simp add: Sprintf_0x_def Let_def)

lemma of_char_decimal: "d < 10 \<Longrightarrow> (of_char (char_of (48 + (d :: nat))) :: nat) = 48 + d"
  by (simp add: of_char_of)

lemma lt16_cases:
  "d < 16 \<Longrightarrow> d = 0 \<or> d = 1 \<or> d = 2 \<or> d = 3 \<or> d = 4 \<or> d = 5 \<or> d = 6 \<or> d = 7 \<or>
     d = 8 \<or> d = 9 \<or> d = 10 \<or> d = 11 \<or> d = 12 \<or> d = 13 \<or> d = 14 \<or> d = (15 :: nat)"
  by arith

lemma of_char_ldigits:
  "d < 16 \<Longrightarrow> (of_char (ldigits ! d) :: nat) = (if d < 10 then 48 + d else 87 + d)"
  by (drule lt16_cases) (auto simp: ldigits_def)

lemma digit_value_decimal: "d < 10 \<Longrightarrow> digit_value (char_of (48 + (d :: nat))) = d"
  by (simp add: digit_value_def of_char_decimal)

lemma digit_value_ldigits: "d < 16 \<Longrightarrow> digit_value (ldigits ! d) = d"
  by (simp add: digit_value_def of_char_ldigits)

lemma decimal_digit_char: "d < 10 \<Longrightarrow> decimal_digit (char_of (48 + (d :: nat)))"
  by (simp add: decimal_digit_def of_char_decimal)

lemma lower_hex_digit_ldigits: "d < 16 \<Longrightarrow> lower_hex_digit (ldigits ! d)"
  by (simp add: lower_hex_digit_def of_char_ldigits)

lemma digits_value_snoc:
  "digits_value base (s @ [c]) = digits_value base s * base + digit_value c"
  by (simp add: digits_value_def)

lemma digits_value_zeros: "digits_value base (replicate k CHR ''0'' @ s) = digits_value base s"
  by (induction k) (simp_all add: digits_value_def digit_value_def)

lemma digits_value_decimal_digits: "digits_value 10 (decimal_digits u) = u"
proof (induction u rule: decimal_digits.induct)
  case (1 u)
  show ?case
  proof (cases "u < 10")
    case True
    thus ?thesis by (simp add: decimal_digits.simps [of u] digits_value_def digit_value_decimal)
  next
    case False
    have "u mod 10 < 10" by simp
    with "1.IH" [OF False] False show ?thesis
      by (simp add: decimal_digits.simps [of u] digits_value_snoc digit_value_decimal)
  qed
qed

lemma digits_value_hex_digits: "digits_value 16 (hex_digits u) = u"
proof (induction u rule: hex_digits.induct)
  case (1 u)
  show ?case
  proof (cases "u < 16")
    case True
    thus ?thesis by (simp add: hex_digits.simps [of u] digits_value_def digit_value_ldigits)
  next
    case False
    have "u mod 16 < 16" by simp
    with "1.IH" [OF False] False show ?thesis
      by (simp add: hex_digits.simps [of u] digits_value_snoc digit_value_ldigits)
  qed
qed

lemma all_decimal_digits: "list_all decimal_digit (decimal_digits u)"
proof (induction u rule: decimal_digits.induct)
  case (1 u)
  have "u mod 10 < 10" by simp
  with 1 show ?case
    by (cases "u < 10") (simp_all add: decimal_digits.simps [of u] decimal_digit_char)
qed

lemma all_hex_digits: "list_all lower_hex_digit (hex_digits u)"
proof (induction u rule: hex_digits.induct)
  case (1 u)
  have "u mod 16 < 16" by simp
  with 1 show ?case
    by (cases "u < 16") (simp_all add: hex_digits.simps [of u] lower_hex_digit_ldigits)
qed

lemma Sprintf_0d_value: "digits_value 10 (Sprintf_0d w u) = u"
  by (simp add: Sprintf_0d_def Let_def digits_value_zeros digits_value_decimal_digits)

lemma Sprintf_0x_value: "digits_value 16 (Sprintf_0x w u) = u"
  by (simp add: Sprintf_0x_def Let_def digits_value_zeros digits_value_hex_digits)

lemma Sprintf_0d_digits: "list_all decimal_digit (Sprintf_0d w u)"
  using all_decimal_digits [of u]
  by (auto simp: Sprintf_0d_def Let_def list_all_iff decimal_digit_def)

lemma Sprintf_0x_digits: "list_all lower_hex_digit (Sprintf_0x w u)"
  using all_hex_digits [of u]
  by (auto simp: Sprintf_0x_def Let_def list_all_iff lower_hex_digit_def)

lemma unat_high_nibble: "unat (drop_bit 4 (b :: byte)) = unat b div 16"
  unfolding unat_drop_bit_eq by (simp add: drop_bit_eq_div)

lemma unat_low_nibble: "unat ((b :: byte) AND 0xF) = unat b mod 16"
proof -
  have "b AND 0xF = take_bit 4 b" by (simp add: take_bit_eq_mask mask_numeral)
  hence "unat (b AND 0xF) = unat (take_bit 4 b)" by (rule arg_cong)
  also have "\<dots> = take_bit 4 (unat b)" by (simp only: unsigned_take_bit_eq)
  also have "\<dots> = unat b mod 16" by (simp add: take_bit_eq_mod)
  finally show ?thesis .
qed

lemma unat_byte_lt: "unat (b :: byte) < 256"
  using unsigned_less [of b, where 'a = nat] by simp

lemma length_Sprintf_x_bytes: "length (Sprintf_x_bytes bs) = 2 * length bs"
  by (induction bs) (simp_all add: Sprintf_x_bytes_def)

lemma Sprintf_x_bytes_digits: "list_all lower_hex_digit (Sprintf_x_bytes bs)"
proof (induction bs)
  case Nil
  show ?case by (simp add: Sprintf_x_bytes_def)
next
  case (Cons b bs)
  have "unat b div 16 < 16" using unat_byte_lt [of b] by simp
  moreover have "unat b mod 16 < 16" by simp
  ultimately show ?case using Cons
    by (simp add: Sprintf_x_bytes_def unat_high_nibble unat_low_nibble lower_hex_digit_ldigits)
qed

lemma Sprintf_x_bytes_value:
  "map (digits_value 16) (pairs (Sprintf_x_bytes bs)) = map unat bs"
proof (induction bs)
  case Nil
  show ?case by (simp add: Sprintf_x_bytes_def)
next
  case (Cons b bs)
  have h: "unat b div 16 < 16" using unat_byte_lt [of b] by simp
  have l: "unat b mod 16 < 16" by simp
  have "digits_value 16 [ldigits ! (unat b div 16), ldigits ! (unat b mod 16)] = unat b"
    using h l by (simp add: digits_value_def digit_value_ldigits)
  thus ?case using Cons
    by (simp add: Sprintf_x_bytes_def unat_high_nibble unat_low_nibble)
qed

lemma bytes_of_string_append: "bytes_of_string (s @ t) = bytes_of_string s @ bytes_of_string t"
  by (simp add: bytes_of_string_def)

lemma unat_ID_lt: "unat (w :: 32 word) < 16 ^ 8"
  using unsigned_less [of w, where 'a = nat] by simp

lemma length_hexid: "length (Sprintf_0x 8 (unat (w :: 32 word))) = 8"
  by (rule length_Sprintf_0x) (simp, rule unat_ID_lt)

lemma sendRPTK_packet:
  assumes "length (sha256_Sum (random @ bytes_of_string (HBRP.Password (Config.HBRP config)))) = 32"
  shows "sendRPTK sha256_Sum config random connTX =
           connTX @ [bytes_of_string (''RPTK'' @ Sprintf_0x 8 (unat (HBRP.ID (Config.HBRP config))) @
              Sprintf_x_bytes (sha256_Sum (random @ bytes_of_string (HBRP.Password (Config.HBRP config)))))]"
proof -
  let ?tok = "Sprintf_x_bytes (sha256_Sum (random @ bytes_of_string (HBRP.Password (Config.HBRP config))))"
  let ?hex = "Sprintf_0x 8 (unat (HBRP.ID (Config.HBRP config)))"
  have lt: "length ?tok = 64" using assms by (simp add: length_Sprintf_x_bytes)
  have lh: "length ?hex = 8" by (rule length_hexid)
  show ?thesis
    unfolding sendRPTK_def Let_def
    using lt lh by (simp add: copy_go_def bytes_of_string_def)
qed

text \<open>
  Claim C5: for every nonce, \<open>sendRPTK\<close> queues exactly one datagram of 76 bytes:
  the ASCII string \<open>RPTK\<close>, then the repeater ID as 8 zero-padded lower-case
  hexadecimal digits, then the 64 lower-case hexadecimal digits of the SHA-256 digest
  of the nonce followed by the password.  The digest function is a parameter; all
  that is used of SHA-256 is that its digest has 32 bytes.
\<close>

theorem C5_sendRPTK:
  assumes "length (sha256_Sum (nonce @ bytes_of_string (HBRP.Password (Config.HBRP config)))) = 32"
  shows "sendRPTK sha256_Sum config nonce connTX =
           connTX @ [bytes_of_string (''RPTK'' @ Sprintf_0x 8 (unat (HBRP.ID (Config.HBRP config))) @
              Sprintf_x_bytes (sha256_Sum (nonce @ bytes_of_string (HBRP.Password (Config.HBRP config)))))] \<and>
         length (bytes_of_string (''RPTK'' @ Sprintf_0x 8 (unat (HBRP.ID (Config.HBRP config))) @
              Sprintf_x_bytes (sha256_Sum (nonce @ bytes_of_string (HBRP.Password (Config.HBRP config)))))) = 76 \<and>
         length (Sprintf_0x 8 (unat (HBRP.ID (Config.HBRP config)))) = 8 \<and>
         list_all lower_hex_digit (Sprintf_0x 8 (unat (HBRP.ID (Config.HBRP config)))) \<and>
         digits_value 16 (Sprintf_0x 8 (unat (HBRP.ID (Config.HBRP config))))
           = unat (HBRP.ID (Config.HBRP config)) \<and>
         length (Sprintf_x_bytes (sha256_Sum (nonce @ bytes_of_string (HBRP.Password (Config.HBRP config))))) = 64 \<and>
         list_all lower_hex_digit
           (Sprintf_x_bytes (sha256_Sum (nonce @ bytes_of_string (HBRP.Password (Config.HBRP config))))) \<and>
         map (digits_value 16)
           (pairs (Sprintf_x_bytes (sha256_Sum (nonce @ bytes_of_string (HBRP.Password (Config.HBRP config))))))
           = map unat (sha256_Sum (nonce @ bytes_of_string (HBRP.Password (Config.HBRP config))))"
proof -
  let ?tok = "Sprintf_x_bytes (sha256_Sum (nonce @ bytes_of_string (HBRP.Password (Config.HBRP config))))"
  let ?hex = "Sprintf_0x 8 (unat (HBRP.ID (Config.HBRP config)))"
  have lt: "length ?tok = 64" using assms by (simp add: length_Sprintf_x_bytes)
  have lh: "length ?hex = 8" by (rule length_hexid)
  have len: "length (bytes_of_string (''RPTK'' @ ?hex @ ?tok)) = 76"
    using lt lh by simp
  have pkt: "sendRPTK sha256_Sum config nonce connTX = connTX @ [bytes_of_string (''RPTK'' @ ?hex @ ?tok)]"
    using assms by (rule sendRPTK_packet)
  show ?thesis
    using pkt len lh lt Sprintf_0x_digits [of 8 "unat (HBRP.ID (Config.HBRP config))"]
      Sprintf_0x_value [of 8 "unat (HBRP.ID (Config.HBRP config))"]
      Sprintf_x_bytes_digits [of "sha256_Sum (nonce @ bytes_of_string (HBRP.Password (Config.HBRP config)))"]
      Sprintf_x_bytes_value [of "sha256_Sum (nonce @ bytes_of_string (HBRP.Password (Config.HBRP config)))"]
    by (intro conjI)
qed

lemma hexid_sample: "Sprintf_0x 8 (unat (311860 :: 32 word)) = ''0004c234''"
  by (simp add: Sprintf_0x_def hex_digits.simps ldigits_def, simp add: numeral_3_eq_3)

text \<open>
  Witness for C5: the client of the repository's tests (ID 311860, password
  \<open>s3cret\<close>), the nonce \<open>12345678\<close> and a 32-byte digest.
\<close>

theorem C5_sendRPTK_witness:
  "length (counting_digest (bytes_of_string ''12345678'' @
      bytes_of_string (HBRP.Password (Config.HBRP (config_with_auth False []))))) = 32 \<and>
   map length (sendRPTK counting_digest (config_with_auth False []) (bytes_of_string ''12345678'') [])
     = [76] \<and>
   map (take 12) (sendRPTK counting_digest (config_with_auth False []) (bytes_of_string ''12345678'') [])
     = [bytes_of_string ''RPTK0004c234'']"
proof -
  have h: "length (counting_digest (bytes_of_string ''12345678'' @
      bytes_of_string (HBRP.Password (Config.HBRP (config_with_auth False []))))) = 32"
    by (simp add: counting_digest_def)
  have id: "HBRP.ID (Config.HBRP (config_with_auth False [])) = 311860"
    by (simp add: config_with_auth_def hbrp_config_def)
  note w = C5_sendRPTK [of counting_digest "bytes_of_string ''12345678''"
      "config_with_auth False []" "[]", OF h]
  from w have pkt: "sendRPTK counting_digest (config_with_auth False []) (bytes_of_string ''12345678'') []
      = [] @ [bytes_of_string (''RPTK'' @ Sprintf_0x 8 (unat (HBRP.ID (Config.HBRP (config_with_auth False [])))) @
              Sprintf_x_bytes (counting_digest (bytes_of_string ''12345678'' @
                 bytes_of_string (HBRP.Password (Config.HBRP (config_with_auth False []))))))]"
    by (rule conjunct1)
  from w have len: "length (bytes_of_string (''RPTK'' @ Sprintf_0x 8 (unat (HBRP.ID (Config.HBRP (config_with_auth False [])))) @
              Sprintf_x_bytes (counting_digest (bytes_of_string ''12345678'' @
                 bytes_of_string (HBRP.Password (Config.HBRP (config_with_auth False []))))))) = 76"
    by (rule conjunct2 [THEN conjunct1])
  have a: "map length (sendRPTK counting_digest (config_with_auth False []) (bytes_of_string ''12345678'') []) = [76]"
    by (simp only: pkt append_Nil list.map len)
  have b: "map (take 12) (sendRPTK counting_digest (config_with_auth False []) (bytes_of_string ''12345678'') [])
     = [bytes_of_string ''RPTK0004c234'']"
    by (simp only: pkt id hexid_sample) (simp add: bytes_of_string_def)
  from h a b show ?thesis by (intro conjI)
qed

lemma sendRPTC_packet:
  "sendRPTC Sprintf_f config connTX =
     connTX @ [bytes_of_string (concat (RPTC_fields Sprintf_f (Config.HBRP config)))]"
  by (simp add: sendRPTC_def RPTC_fields_def Let_def bytes_of_string_def)

lemma length_coordinate: "length (take w (Sprintf_minus_0f Sprintf_f w x)) = w"
  using length_Sprintf_minus_s_ge [of w "Sprintf_f x"]
  by (simp add: Sprintf_minus_0f_def)

lemma length_Sprintf_minus_0f_ge: "w \<le> length (Sprintf_minus_0f Sprintf_f w x)"
  by (simp add: Sprintf_minus_0f_def length_Sprintf_minus_s_ge)

lemma coordinate_field:
  "take w (Sprintf_minus_0f Sprintf_f w x) = take w (Sprintf_f x @ replicate w CHR '' '')"
  by (simp only: Sprintf_minus_0f_def take_Sprintf_minus_s)

lemma Sprintf_minus_s_empty: "Sprintf_minus_s w [] = replicate w CHR '' ''"
  by (simp add: Sprintf_minus_s_def)

lemma length_RPTC_fields:
  "map length (RPTC_fields Sprintf_f h) =
     [4, length (Sprintf_minus_s 8 (HBRP.Callsign h)), 8,
      length (Sprintf_0d 9 (unat (HBRP.RXFreq h))), length (Sprintf_0d 9 (unat (HBRP.TXFreq h))),
      length (Sprintf_0d 2 (unat (HBRP.TXPower h))), length (Sprintf_0d 2 (unat (HBRP.ColorCode h))),
      8, 9, length (Sprintf_0d 3 (unat (HBRP.Height h))),
      length (Sprintf_minus_s 20 (HBRP.Location h)),
      length (Sprintf_minus_s 20 (HBRP.Description h)),
      length (Sprintf_minus_s 124 (HBRP.URL h)), 40, 40]"
  by (simp add: RPTC_fields_def length_Sprintf_minus_0f_ge min_absorb2 length_hexid
        Sprintf_minus_s_empty)

lemma length_concat_fields: "length (concat xs) = sum_list (map length xs)"
  by (induction xs) simp_all

lemma RuneCount_zurich: "RuneCountInString zurich = 6"
  by (simp add: zurich_def rune_size_def utf8_first_def continuation_byte_def Let_def)

lemma length_RPTC_packet:
  "length (bytes_of_string (concat (RPTC_fields Sprintf_f h))) =
     4 + length (Sprintf_minus_s 8 (HBRP.Callsign h)) + 8 +
     length (Sprintf_0d 9 (unat (HBRP.RXFreq h))) + length (Sprintf_0d 9 (unat (HBRP.TXFreq h))) +
     length (Sprintf_0d 2 (unat (HBRP.TXPower h))) + length (Sprintf_0d 2 (unat (HBRP.ColorCode h))) +
     8 + 9 + length (Sprintf_0d 3 (unat (HBRP.Height h))) +
     length (Sprintf_minus_s 20 (HBRP.Location h)) +
     length (Sprintf_minus_s 20 (HBRP.Description h)) +
     length (Sprintf_minus_s 124 (HBRP.URL h)) + 40 + 40"
  by (simp only: length_bytes_of_string length_concat_fields length_RPTC_fields) simp

lemma callsign_field:
  "take 8 (drop 4 (bytes_of_string (concat (RPTC_fields Sprintf_f h))))
     = bytes_of_string (take 8 (Sprintf_minus_s 8 (HBRP.Callsign h)))"
proof -
  have "8 \<le> length (Sprintf_minus_s 8 (HBRP.Callsign h))" by (rule length_Sprintf_minus_s_ge)
  thus ?thesis by (simp add: RPTC_fields_def bytes_of_string_def take_map)
qed

lemma zurich_fields:
  "HBRP.Callsign (Config.HBRP zurich_config) = ''N0CALL''"
  "HBRP.Location (Config.HBRP zurich_config) = zurich"
  "HBRP.Description (Config.HBRP zurich_config) = ''Test Repeater''"
  "HBRP.URL (Config.HBRP zurich_config) = ''https://example.com''"
  "HBRP.RXFreq (Config.HBRP zurich_config) = 449000000"
  "HBRP.TXFreq (Config.HBRP zurich_config) = 444000000"
  "HBRP.TXPower (Config.HBRP zurich_config) = 50"
  "HBRP.ColorCode (Config.HBRP zurich_config) = 1"
  "HBRP.Height (Config.HBRP zurich_config) = 30"
  by (simp_all add: zurich_config_def hbrp_config_def)

text \<open>
  Claim C6, as stated, fails: in \<open>zurich_config\<close> every string and numeric field
  fits its width (the location, Z-u-umlaut-rich, has 6 characters in 7 bytes), yet
  the datagram has 307 bytes, not 306: \<open>%-20s\<close> pads the location to 20 runes, which
  are 21 bytes, and every later field moves by one byte.  The callsign is padded on
  its right (\<open>%-8s\<close> left-justifies), not on its left.
\<close>

theorem C6_counterexample:
  "length (HBRP.Callsign (Config.HBRP zurich_config)) \<le> 8 \<and>
   length (HBRP.Location (Config.HBRP zurich_config)) = 7 \<and>
   RuneCountInString (HBRP.Location (Config.HBRP zurich_config)) = 6 \<and>
   length (HBRP.Description (Config.HBRP zurich_config)) \<le> 20 \<and>
   length (HBRP.URL (Config.HBRP zurich_config)) \<le> 124 \<and>
   unat (HBRP.RXFreq (Config.HBRP zurich_config)) < 10 ^ 9 \<and>
   unat (HBRP.TXFreq (Config.HBRP zurich_config)) < 10 ^ 9 \<and>
   unat (HBRP.TXPower (Config.HBRP zurich_config)) < 10 ^ 2 \<and>
   unat (HBRP.ColorCode (Config.HBRP zurich_config)) < 10 ^ 2 \<and>
   unat (HBRP.Height (Config.HBRP zurich_config)) < 10 ^ 3 \<and>
   map length (sendRPTC sample_Sprintf_f zurich_config []) = [307] \<and>
   map (take 8 \<circ> drop 4) (sendRPTC sample_Sprintf_f zurich_config [])
     = [bytes_of_string ''N0CALL  '']"
proof -
  have fits: "length (HBRP.Callsign (Config.HBRP zurich_config)) \<le> 8"
    "length (HBRP.Location (Config.HBRP zurich_config)) = 7"
    "length (HBRP.Description (Config.HBRP zurich_config)) \<le> 20"
    "length (HBRP.URL (Config.HBRP zurich_config)) \<le> 124"
    "unat (HBRP.RXFreq (Config.HBRP zurich_config)) < 10 ^ 9"
    "unat (HBRP.TXFreq (Config.HBRP zurich_config)) < 10 ^ 9"
    "unat (HBRP.TXPower (Config.HBRP zurich_config)) < 10 ^ 2"
    "unat (HBRP.ColorCode (Config.HBRP zurich_config)) < 10 ^ 2"
    "unat (HBRP.Height (Config.HBRP zurich_config)) < 10 ^ 3"
    by (simp_all add: zurich_fields zurich_def)
  have rc: "RuneCountInString (HBRP.Location (Config.HBRP zurich_config)) = 6"
    by (simp only: zurich_fields RuneCount_zurich)
  have asc: "ascii_string ''N0CALL''" "ascii_string ''Test Repeater''"
    "ascii_string ''https://example.com''"
    by (simp_all add: ascii_string_def)
  have l1: "length (Sprintf_minus_s 8 (HBRP.Callsign (Config.HBRP zurich_config))) = 8"
    "length (Sprintf_minus_s 20 (HBRP.Description (Config.HBRP zurich_config))) = 20"
    "length (Sprintf_minus_s 124 (HBRP.URL (Config.HBRP zurich_config))) = 124"
    by (simp_all add: zurich_fields length_Sprintf_minus_s_ascii asc)
  have l2: "length (Sprintf_minus_s 20 (HBRP.Location (Config.HBRP zurich_config))) = 21"
    by (simp add: Sprintf_minus_s_def rc fits(2))
  have l3: "length (Sprintf_0d 9 (unat (HBRP.RXFreq (Config.HBRP zurich_config)))) = 9"
    "length (Sprintf_0d 9 (unat (HBRP.TXFreq (Config.HBRP zurich_config)))) = 9"
    "length (Sprintf_0d 2 (unat (HBRP.TXPower (Config.HBRP zurich_config)))) = 2"
    "length (Sprintf_0d 2 (unat (HBRP.ColorCode (Config.HBRP zurich_config)))) = 2"
    "length (Sprintf_0d 3 (unat (HBRP.Height (Config.HBRP zurich_config)))) = 3"
    by (rule length_Sprintf_0d, simp, rule fits)+
  have len: "map length (sendRPTC sample_Sprintf_f zurich_config []) = [307]"
    by (simp only: sendRPTC_packet append_Nil list.map length_RPTC_packet l1 l2 l3) simp
  have "Sprintf_minus_s 8 (HBRP.Callsign (Config.HBRP zurich_config)) = ''N0CALL  ''"
    by (simp add: zurich_fields Sprintf_minus_s_ascii asc numeral_2_eq_2)
  hence cs: "map (take 8 \<circ> drop 4) (sendRPTC sample_Sprintf_f zurich_config [])
     = [bytes_of_string ''N0CALL  '']"
    by (simp only: sendRPTC_packet append_Nil list.map o_apply callsign_field) simp
  from fits rc len cs show ?thesis by (intro conjI)
qed

text \<open>
  Claim C6 (amended): for every configuration whose callsign, location, description
  and URL are ASCII and at most 8, 20, 20 and 124 bytes long, and whose RX and TX
  frequencies, TX power, colour code and height have at most 9, 9, 2, 2 and 3 decimal
  digits, \<open>sendRPTC\<close> queues exactly one datagram of 306 bytes: \<open>RPTC\<close>, the callsign
  followed by spaces up to 8 characters, the ID as 8 hexadecimal digits, RX and TX
  frequency as 9 zero-padded decimal digits each, TX power and colour code as 2
  digits each, the first 8 characters of the latitude rendering and the first 9 of
  the longitude rendering (space-padded when shorter), the height as 3 digits,
  location and description followed by spaces up to 20 characters each, the URL
  followed by spaces up to 124 characters, and two blocks of 40 spaces.
\<close>

theorem C6_sendRPTC:
  assumes "ascii_string (HBRP.Callsign (Config.HBRP config))"
      and "length (HBRP.Callsign (Config.HBRP config)) \<le> 8"
      and "ascii_string (HBRP.Location (Config.HBRP config))"
      and "length (HBRP.Location (Config.HBRP config)) \<le> 20"
      and "ascii_string (HBRP.Description (Config.HBRP config))"
      and "length (HBRP.Description (Config.HBRP config)) \<le> 20"
      and "ascii_string (HBRP.URL (Config.HBRP config))"
      and "length (HBRP.URL (Config.HBRP config)) \<le> 124"
      and "unat (HBRP.RXFreq (Config.HBRP config)) < 10 ^ 9"
      and "unat (HBRP.TXFreq (Config.HBRP config)) < 10 ^ 9"
      and "unat (HBRP.TXPower (Config.HBRP config)) < 10 ^ 2"
      and "unat (HBRP.ColorCode (Config.HBRP config)) < 10 ^ 2"
      and "unat (HBRP.Height (Config.HBRP config)) < 10 ^ 3"
  shows "sendRPTC Sprintf_f config connTX =
           connTX @ [bytes_of_string (concat (RPTC_fields Sprintf_f (Config.HBRP config)))] \<and>
         length (bytes_of_string (concat (RPTC_fields Sprintf_f (Config.HBRP config)))) = 306 \<and>
         map length (RPTC_fields Sprintf_f (Config.HBRP config))
           = [4, 8, 8, 9, 9, 2, 2, 8, 9, 3, 20, 20, 124, 40, 40] \<and>
         RPTC_fields Sprintf_f (Config.HBRP config) =
           [''RPTC'',
            HBRP.Callsign (Config.HBRP config)
              @ replicate (8 - length (HBRP.Callsign (Config.HBRP config))) CHR '' '',
            Sprintf_0x 8 (unat (HBRP.ID (Config.HBRP config))),
            Sprintf_0d 9 (unat (HBRP.RXFreq (Config.HBRP config))),
            Sprintf_0d 9 (unat (HBRP.TXFreq (Config.HBRP config))),
            Sprintf_0d 2 (unat (HBRP.TXPower (Config.HBRP config))),
            Sprintf_0d 2 (unat (HBRP.ColorCode (Config.HBRP config))),
            take 8 (Sprintf_f (HBRP.Latitude (Config.HBRP config)) @ replicate 8 CHR '' ''),
            take 9 (Sprintf_f (HBRP.Longitude (Config.HBRP config)) @ replicate 9 CHR '' ''),
            Sprintf_0d 3 (unat (HBRP.Height (Config.HBRP config))),
            HBRP.Location (Config.HBRP config)
              @ replicate (20 - length (HBRP.Location (Config.HBRP config))) CHR '' '',
            HBRP.Description (Config.HBRP config)
              @ replicate (20 - length (HBRP.Description (Config.HBRP config))) CHR '' '',
            HBRP.URL (Config.HBRP config)
              @ replicate (124 - length (HBRP.URL (Config.HBRP config))) CHR '' '',
            replicate 40 CHR '' '', replicate 40 CHR '' ''] \<and>
         list_all lower_hex_digit (Sprintf_0x 8 (unat (HBRP.ID (Config.HBRP config)))) \<and>
         digits_value 16 (Sprintf_0x 8 (unat (HBRP.ID (Config.HBRP config))))
           = unat (HBRP.ID (Config.HBRP config)) \<and>
         list_all decimal_digit (Sprintf_0d 9 (unat (HBRP.RXFreq (Config.HBRP config)))) \<and>
         digits_value 10 (Sprintf_0d 9 (unat (HBRP.RXFreq (Config.HBRP config))))
           = unat (HBRP.RXFreq (Config.HBRP config)) \<and>
         list_all decimal_digit (Sprintf_0d 9 (unat (HBRP.TXFreq (Config.HBRP config)))) \<and>
         digits_value 10 (Sprintf_0d 9 (unat (HBRP.TXFreq (Config.HBRP config))))
           = unat (HBRP.TXFreq (Config.HBRP config)) \<and>
         list_all decimal_digit (Sprintf_0d 2 (unat (HBRP.TXPower (Config.HBRP config)))) \<and>
         digits_value 10 (Sprintf_0d 2 (unat (HBRP.TXPower (Config.HBRP config))))
           = unat (HBRP.TXPower (Config.HBRP config)) \<and>
         list_all decimal_digit (Sprintf_0d 2 (unat (HBRP.ColorCode (Config.HBRP config)))) \<and>
         digits_value 10 (Sprintf_0d 2 (unat (HBRP.ColorCode (Config.HBRP config))))
           = unat (HBRP.ColorCode (Config.HBRP config)) \<and>
         list_all decimal_digit (Sprintf_0d 3 (unat (HBRP.Height (Config.HBRP config)))) \<and>
         digits_value 10 (Sprintf_0d 3 (unat (HBRP.Height (Config.HBRP config))))
           = unat (HBRP.Height (Config.HBRP config))"
proof -
  let ?h = "Config.HBRP config"
  have l1: "length (Sprintf_minus_s 8 (HBRP.Callsign ?h)) = 8"
    "length (Sprintf_minus_s 20 (HBRP.Location ?h)) = 20"
    "length (Sprintf_minus_s 20 (HBRP.Description ?h)) = 20"
    "length (Sprintf_minus_s 124 (HBRP.URL ?h)) = 124"
    using assms(1-8) by (simp_all add: length_Sprintf_minus_s_ascii)
  have l3: "length (Sprintf_0d 9 (unat (HBRP.RXFreq ?h))) = 9"
    "length (Sprintf_0d 9 (unat (HBRP.TXFreq ?h))) = 9"
    "length (Sprintf_0d 2 (unat (HBRP.TXPower ?h))) = 2"
    "length (Sprintf_0d 2 (unat (HBRP.ColorCode ?h))) = 2"
    "length (Sprintf_0d 3 (unat (HBRP.Height ?h))) = 3"
    by (rule length_Sprintf_0d, simp, rule assms)+
  have len: "length (bytes_of_string (concat (RPTC_fields Sprintf_f ?h))) = 306"
    by (simp only: length_RPTC_packet l1 l3)
  have lens: "map length (RPTC_fields Sprintf_f ?h)
           = [4, 8, 8, 9, 9, 2, 2, 8, 9, 3, 20, 20, 124, 40, 40]"
    by (simp only: length_RPTC_fields l1 l3)
  have fields: "RPTC_fields Sprintf_f ?h =
           [''RPTC'',
            HBRP.Callsign ?h @ replicate (8 - length (HBRP.Callsign ?h)) CHR '' '',
            Sprintf_0x 8 (unat (HBRP.ID ?h)),
            Sprintf_0d 9 (unat (HBRP.RXFreq ?h)),
            Sprintf_0d 9 (unat (HBRP.TXFreq ?h)),
            Sprintf_0d 2 (unat (HBRP.TXPower ?h)),
            Sprintf_0d 2 (unat (HBRP.ColorCode ?h)),
            take 8 (Sprintf_f (HBRP.Latitude ?h) @ replicate 8 CHR '' ''),
            take 9 (Sprintf_f (HBRP.Longitude ?h) @ replicate 9 CHR '' ''),
            Sprintf_0d 3 (unat (HBRP.Height ?h)),
            HBRP.Location ?h @ replicate (20 - length (HBRP.Location ?h)) CHR '' '',
            HBRP.Description ?h @ replicate (20 - length (HBRP.Description ?h)) CHR '' '',
            HBRP.URL ?h @ replicate (124 - length (HBRP.URL ?h)) CHR '' '',
            replicate 40 CHR '' '', replicate 40 CHR '' '']"
    unfolding RPTC_fields_def
    by (simp only: coordinate_field Sprintf_minus_s_empty
          Sprintf_minus_s_ascii [OF assms(1)] Sprintf_minus_s_ascii [OF assms(3)]
          Sprintf_minus_s_ascii [OF assms(5)] Sprintf_minus_s_ascii [OF assms(7)])
  show ?thesis
    using sendRPTC_packet [of Sprintf_f config connTX] len lens fields
      Sprintf_0x_digits [of 8 "unat (HBRP.ID ?h)"] Sprintf_0x_value [of 8 "unat (HBRP.ID ?h)"]
      Sprintf_0d_digits [of 9 "unat (HBRP.RXFreq ?h)"] Sprintf_0d_value [of 9 "unat (HBRP.RXFreq ?h)"]
      Sprintf_0d_digits [of 9 "unat (HBRP.TXFreq ?h)"] Sprintf_0d_value [of 9 "unat (HBRP.TXFreq ?h)"]
      Sprintf_0d_digits [of 2 "unat (HBRP.TXPower ?h)"] Sprintf_0d_value [of 2 "unat (HBRP.TXPower ?h)"]
      Sprintf_0d_digits [of 2 "unat (HBRP.ColorCode ?h)"] Sprintf_0d_value [of 2 "unat (HBRP.ColorCode ?h)"]
      Sprintf_0d_digits [of 3 "unat (HBRP.Height ?h)"] Sprintf_0d_value [of 3 "unat (HBRP.Height ?h)"]
    by (intro conjI)
qed

lemma sample_numbers:
  "Sprintf_0x 8 (unat (311860 :: 32 word)) = ''0004c234''"
  "Sprintf_0d 9 (unat (449000000 :: uint)) = ''449000000''"
  "Sprintf_0d 9 (unat (444000000 :: uint)) = ''444000000''"
  "Sprintf_0d 2 (unat (50 :: byte)) = ''50''"
  "Sprintf_0d 2 (unat (1 :: byte)) = ''01''"
  "Sprintf_0d 3 (unat (30 :: 16 word)) = ''030''"
  by (simp add: Sprintf_0x_def hex_digits.simps ldigits_def, simp add: numeral_3_eq_3)
     (simp_all add: Sprintf_0d_def decimal_digits.simps char_of_def bit_0)

lemma sample_fields:
  "HBRP.Callsign (Config.HBRP (config_with_auth en k)) = ''N0CALL''"
  "HBRP.Location (Config.HBRP (config_with_auth en k)) = ''Oklahoma''"
  "HBRP.Description (Config.HBRP (config_with_auth en k)) = ''Test Repeater''"
  "HBRP.URL (Config.HBRP (config_with_auth en k)) = ''https://example.com''"
  "HBRP.ID (Config.HBRP (config_with_auth en k)) = 311860"
  "HBRP.RXFreq (Config.HBRP (config_with_auth en k)) = 449000000"
  "HBRP.TXFreq (Config.HBRP (config_with_auth en k)) = 444000000"
  "HBRP.TXPower (Config.HBRP (config_with_auth en k)) = 50"
  "HBRP.ColorCode (Config.HBRP (config_with_auth en k)) = 1"
  "HBRP.Height (Config.HBRP (config_with_auth en k)) = 30"
  "HBRP.Latitude (Config.HBRP (config_with_auth en k)) = Finite 35"
  "HBRP.Longitude (Config.HBRP (config_with_auth en k)) = Finite (- 97)"
  by (simp_all add: config_with_auth_def hbrp_config_def)

text \<open>
  Witness for C6: the configuration of the repository's client tests, with the
  datagram it produces.
\<close>

theorem C6_sendRPTC_witness:
  "ascii_string (HBRP.Callsign (Config.HBRP (config_with_auth False []))) \<and>
   length (HBRP.Callsign (Config.HBRP (config_with_auth False []))) \<le> 8 \<and>
   ascii_string (HBRP.Location (Config.HBRP (config_with_auth False []))) \<and>
   length (HBRP.Location (Config.HBRP (config_with_auth False []))) \<le> 20 \<and>
   ascii_string (HBRP.Description (Config.HBRP (config_with_auth False []))) \<and>
   length (HBRP.Description (Config.HBRP (config_with_auth False []))) \<le> 20 \<and>
   ascii_string (HBRP.URL (Config.HBRP (config_with_auth False []))) \<and>
   length (HBRP.URL (Config.HBRP (config_with_auth False []))) \<le> 124 \<and>
   unat (HBRP.RXFreq (Config.HBRP (config_with_auth False []))) < 10 ^ 9 \<and>
   unat (HBRP.TXFreq (Config.HBRP (config_with_auth False []))) < 10 ^ 9 \<and>
   unat (HBRP.TXPower (Config.HBRP (config_with_auth False []))) < 10 ^ 2 \<and>
   unat (HBRP.ColorCode (Config.HBRP (config_with_auth False []))) < 10 ^ 2 \<and>
   unat (HBRP.Height (Config.HBRP (config_with_auth False []))) < 10 ^ 3 \<and>
   map length (sendRPTC sample_Sprintf_f (config_with_auth False []) []) = [306] \<and>
   sendRPTC sample_Sprintf_f (config_with_auth False []) [] =
     [bytes_of_string
       (''RPTC'' @ ''N0CALL'' @ replicate 2 CHR '' '' @ ''0004c234'' @ ''449000000'' @
        ''444000000'' @ ''50'' @ ''01'' @ ''35.00000'' @ ''-97.00000'' @ ''030'' @
        ''Oklahoma'' @ replicate 12 CHR '' '' @ ''Test Repeater'' @ replicate 7 CHR '' '' @
        ''https://example.com'' @ replicate 105 CHR '' '' @
        replicate 40 CHR '' '' @ replicate 40 CHR '' '')]"
proof -
  let ?c = "config_with_auth False []"
  have h: "ascii_string (HBRP.Callsign (Config.HBRP ?c))"
    "length (HBRP.Callsign (Config.HBRP ?c)) \<le> 8"
    "ascii_string (HBRP.Location (Config.HBRP ?c))"
    "length (HBRP.Location (Config.HBRP ?c)) \<le> 20"
    "ascii_string (HBRP.Description (Config.HBRP ?c))"
    "length (HBRP.Description (Config.HBRP ?c)) \<le> 20"
    "ascii_string (HBRP.URL (Config.HBRP ?c))"
    "length (HBRP.URL (Config.HBRP ?c)) \<le> 124"
    "unat (HBRP.RXFreq (Config.HBRP ?c)) < 10 ^ 9"
    "unat (HBRP.TXFreq (Config.HBRP ?c)) < 10 ^ 9"
    "unat (HBRP.TXPower (Config.HBRP ?c)) < 10 ^ 2"
    "unat (HBRP.ColorCode (Config.HBRP ?c)) < 10 ^ 2"
    "unat (HBRP.Height (Config.HBRP ?c)) < 10 ^ 3"
    by (simp_all add: sample_fields ascii_string_def)
  note w = C6_sendRPTC [OF h, of sample_Sprintf_f "[]"]
  from w have pkt: "sendRPTC sample_Sprintf_f ?c [] =
      [] @ [bytes_of_string (concat (RPTC_fields sample_Sprintf_f (Config.HBRP ?c)))]"
    by (rule conjunct1)
  from w have len: "length (bytes_of_string (concat (RPTC_fields sample_Sprintf_f (Config.HBRP ?c)))) = 306"
    by (rule conjunct2 [THEN conjunct1])
  from w have fields: "RPTC_fields sample_Sprintf_f (Config.HBRP ?c) =
           [''RPTC'',
            HBRP.Callsign (Config.HBRP ?c)
              @ replicate (8 - length (HBRP.Callsign (Config.HBRP ?c))) CHR '' '',
            Sprintf_0x 8 (unat (HBRP.ID (Config.HBRP ?c))),
            Sprintf_0d 9 (unat (HBRP.RXFreq (Config.HBRP ?c))),
            Sprintf_0d 9 (unat (HBRP.TXFreq (Config.HBRP ?c))),
            Sprintf_0d 2 (unat (HBRP.TXPower (Config.HBRP ?c))),
            Sprintf_0d 2 (unat (HBRP.ColorCode (Config.HBRP ?c))),
            take 8 (sample_Sprintf_f (HBRP.Latitude (Config.HBRP ?c)) @ replicate 8 CHR '' ''),
            take 9 (sample_Sprintf_f (HBRP.Longitude (Config.HBRP ?c)) @ replicate 9 CHR '' ''),
            Sprintf_0d 3 (unat (HBRP.Height (Config.HBRP ?c))),
            HBRP.Location (Config.HBRP ?c)
              @ replicate (20 - length (HBRP.Location (Config.HBRP ?c))) CHR '' '',
            HBRP.Description (Config.HBRP ?c)
              @ replicate (20 - length (HBRP.Description (Config.HBRP ?c))) CHR '' '',
            HBRP.URL (Config.HBRP ?c)
              @ replicate (124 - length (HBRP.URL (Config.HBRP ?c))) CHR '' '',
            replicate 40 CHR '' '', replicate 40 CHR '' '']"
    by (rule conjunct2 [THEN conjunct2, THEN conjunct2, THEN conjunct1])
  have a: "map length (sendRPTC sample_Sprintf_f ?c []) = [306]"
    by (simp only: pkt append_Nil list.map len)
  have b: "sendRPTC sample_Sprintf_f ?c [] =
     [bytes_of_string
       (''RPTC'' @ ''N0CALL'' @ replicate 2 CHR '' '' @ ''0004c234'' @ ''449000000'' @
        ''444000000'' @ ''50'' @ ''01'' @ ''35.00000'' @ ''-97.00000'' @ ''030'' @
        ''Oklahoma'' @ replicate 12 CHR '' '' @ ''Test Repeater'' @ replicate 7 CHR '' '' @
        ''https://example.com'' @ replicate 105 CHR '' '' @
        replicate 40 CHR '' '' @ replicate 40 CHR '' '')]"
    by (simp only: pkt fields sample_fields sample_numbers)
       (simp add: sample_Sprintf_f_def)
  from h a b show ?thesis by (intro conjI)
qed

section \<open>The IPSC translator: proofs\<close>

lemma TranslateToIPSC_header:
  assumes "FrameType p = 1" and "DTypeOrVSeq p = 1"
  shows "map ipsc_burst (snd (TranslateToIPSC d rnd t p)) = [0x01, 0x01, 0x01]"
    and "map ipsc_marker (snd (TranslateToIPSC d rnd t p)) = [True, False, False]"
    and "length (snd (TranslateToIPSC d rnd t p)) = 3"
  using assms by (simp_all add: TranslateToIPSC_def Let_def buildIPSCPacket_def)

lemma TranslateToHBRP_first_head:
  assumes "voice_head_of cc (rnd, packetType, data)" and "reverseStreams t cc = None"
  shows "\<exists>t' f. TranslateToHBRP d rnd t packetType data = (t', [f]) \<and>
           reverseStreams t' cc \<noteq> None \<and> FrameType f = 1 \<and> DTypeOrVSeq f = 1"
  using assms
  by (simp add: voice_head_of_def TranslateToHBRP_def dispatch_burst_def Let_def
        reverse_frame_def)

lemma TranslateToHBRP_duplicate_head:
  assumes "voice_head_of cc (rnd, packetType, data)" and "reverseStreams t cc \<noteq> None"
  shows "TranslateToHBRP d rnd t packetType data = (t, [])"
  using assms
  by (auto simp add: voice_head_of_def TranslateToHBRP_def dispatch_burst_def Let_def)

lemma run_duplicates:
  assumes "list_all (voice_head_of cc) xs" and "reverseStreams t cc \<noteq> None"
  shows "TranslateToHBRP_run d t xs = replicate (length xs) []"
  using assms
proof (induction xs)
  case Nil
  show ?case by simp
next
  case (Cons x xs)
  obtain rnd packetType data where x: "x = (rnd, packetType, data)" by (cases x)
  from Cons.prems x have h: "voice_head_of cc (rnd, packetType, data)" by simp
  have "TranslateToHBRP d rnd t packetType data = (t, [])"
    using h Cons.prems(2) by (rule TranslateToHBRP_duplicate_head)
  with Cons x show ?case by simp
qed

lemma run_headers:
  assumes "reverseStreams t cc = None" and "list_all (voice_head_of cc) (x # xs)"
  shows "\<exists>f. TranslateToHBRP_run d t (x # xs) = [f] # replicate (length xs) [] \<and>
           FrameType f = 1 \<and> DTypeOrVSeq f = 1"
proof -
  obtain rnd packetType data where x: "x = (rnd, packetType, data)" by (cases x)
  from assms(2) x have h: "voice_head_of cc (rnd, packetType, data)"
    and hs: "list_all (voice_head_of cc) xs" by simp_all
  from TranslateToHBRP_first_head [OF h assms(1), of d]
  obtain t' f where tr: "TranslateToHBRP d rnd t packetType data = (t', [f])"
    and st: "reverseStreams t' cc \<noteq> None"
    and f: "FrameType f = 1" "DTypeOrVSeq f = 1" by blast
  from run_duplicates [OF hs st, of d] tr x
  have "TranslateToHBRP_run d t (x # xs) = [f] # replicate (length xs) []" by simp
  with f show ?thesis by blast
qed

lemma test_voice_head_fields:
  "length (test_voice_head ci) = 54"
  "ipsc_burst_of (test_voice_head ci) = 0x01"
  "ipsc_call_control_of (test_voice_head ci) = 0xAAAA"
  "ipsc_end_of (test_voice_head ci) = bit ci 6"
  by (simp_all add: test_voice_head_def ipsc_burst_of_def ipsc_call_control_of_def
        ipsc_end_of_def nth_append)

lemma test_translator_empty: "reverseStreams test_translator cc = None"
  by (simp add: test_translator_def SetPeerID_def NewIPSCTranslator_def)

text \<open>
  Claim C2, as stated, fails on the translator the specification describes: two
  consecutive voice-head datagrams with the same call control \<open>0xAAAA\<close> that both
  carry the end-of-call flag (byte 17 = \<open>0x40\<close>) yield two DMRD frames.  The first
  creates the reverse state and emits a frame; the end flag then destroys the state
  (section 4.C.2, "regardless of burst type"), so the second is a first header again.
\<close>

theorem C2_counterexample:
  "traffic_type 0x80 \<and> 54 \<le> length (test_voice_head 0x40) \<and>
   ipsc_burst_of (test_voice_head 0x40) = 0x01 \<and>
   ipsc_call_control_of (test_voice_head 0x40) = 0xAAAA \<and>
   reverseStreams test_translator 0xAAAA = None \<and>
   map length (TranslateToHBRP_run test_dialect test_translator
      [(0x11111111, 0x80, test_voice_head 0x40), (0x22222222, 0x80, test_voice_head 0x40)])
     = [1, 1]"
proof -
  have e: "ipsc_end_of (test_voice_head 0x40)"
    by (simp add: test_voice_head_fields)
  have step: "TranslateToHBRP test_dialect rnd test_translator 0x80 (test_voice_head 0x40)
      = (test_translator, [reverse_frame test_dialect test_translator
            (new_reverse_stream rnd 0x80 (test_voice_head 0x40) True) 1 1 (test_voice_head 0x40)])"
    for rnd
    using e
    by (simp add: TranslateToHBRP_def dispatch_burst_def Let_def traffic_type_def
          test_voice_head_fields test_translator_empty)
       (simp add: test_translator_def SetPeerID_def NewIPSCTranslator_def)
  show ?thesis
    by (simp add: step test_voice_head_fields test_translator_empty traffic_type_def)
qed

text \<open>
  Claim C2 (amended): translating one DMRD voice LC header (frame type 1, data type
  1) to IPSC produces exactly three IPSC voice-head packets (burst type \<open>0x01\<close>).
  In the reverse direction, consecutive IPSC voice-head datagrams that share a call
  control, do not carry the end-of-call flag and start when the translator has no
  reverse stream for that call control yield exactly one DMRD frame: the first
  produces one frame (frame type 1, data type 1), each duplicate produces none.
\<close>

theorem C2_triple_header:
  "(FrameType p = 1 \<and> DTypeOrVSeq p = 1 \<longrightarrow>
      length (snd (TranslateToIPSC d rnd t p)) = 3 \<and>
      map ipsc_burst (snd (TranslateToIPSC d rnd t p)) = [0x01, 0x01, 0x01]) \<and>
   (reverseStreams t cc = None \<and> list_all (voice_head_of cc) (x # xs) \<longrightarrow>
      map length (TranslateToHBRP_run d t (x # xs)) = 1 # replicate (length xs) 0 \<and>
      map FrameType (concat (TranslateToHBRP_run d t (x # xs))) = [1] \<and>
      map DTypeOrVSeq (concat (TranslateToHBRP_run d t (x # xs))) = [1])"
proof -
  have fwd: "FrameType p = 1 \<and> DTypeOrVSeq p = 1 \<longrightarrow>
      length (snd (TranslateToIPSC d rnd t p)) = 3 \<and>
      map ipsc_burst (snd (TranslateToIPSC d rnd t p)) = [0x01, 0x01, 0x01]"
    by (simp add: TranslateToIPSC_header)
  have rev: "map length (TranslateToHBRP_run d t (x # xs)) = 1 # replicate (length xs) 0 \<and>
      map FrameType (concat (TranslateToHBRP_run d t (x # xs))) = [1] \<and>
      map DTypeOrVSeq (concat (TranslateToHBRP_run d t (x # xs))) = [1]"
    if "reverseStreams t cc = None" and "list_all (voice_head_of cc) (x # xs)"
  proof -
    from run_headers [OF that, of d]
    obtain f where r: "TranslateToHBRP_run d t (x # xs) = [f] # replicate (length xs) []"
      and f: "FrameType f = 1" "DTypeOrVSeq f = 1" by blast
    have c: "concat (replicate (length xs) ([] :: Packet list)) = []"
      by (induction xs) simp_all
    show ?thesis by (simp only: r) (simp add: f c)
  qed
  from fwd rev show ?thesis by blast
qed

text \<open>
  Witness for C2: the header frame and the voice-head datagram of the translator
  tests; three copies of the datagram yield 1, 0 and 0 frames.
\<close>

theorem C2_triple_header_witness:
  "FrameType test_header_frame = 1 \<and> DTypeOrVSeq test_header_frame = 1 \<and>
   length (snd (TranslateToIPSC test_dialect 0x33333333 test_translator test_header_frame)) = 3 \<and>
   reverseStreams test_translator 0xAAAA = None \<and>
   list_all (voice_head_of 0xAAAA)
     [(0x11111111, 0x80, test_voice_head 0x00), (0x22222222, 0x80, test_voice_head 0x00),
      (0x44444444, 0x80, test_voice_head 0x00)] \<and>
   map length (TranslateToHBRP_run test_dialect test_translator
     [(0x11111111, 0x80, test_voice_head 0x00), (0x22222222, 0x80, test_voice_head 0x00),
      (0x44444444, 0x80, test_voice_head 0x00)]) = [1, 0, 0]"
proof -
  have p: "FrameType test_header_frame = 1 \<and> DTypeOrVSeq test_header_frame = 1"
    by (simp add: test_header_frame_def)
  have e: "reverseStreams test_translator 0xAAAA = None" by (rule test_translator_empty)
  have h: "list_all (voice_head_of 0xAAAA)
     [(0x11111111, 0x80, test_voice_head 0x00), (0x22222222, 0x80, test_voice_head 0x00),
      (0x44444444, 0x80, test_voice_head 0x00)]"
    by (simp add: voice_head_of_def traffic_type_def test_voice_head_fields)
  note w = C2_triple_header [of test_header_frame test_dialect "0x33333333" test_translator
      "0xAAAA" "(0x11111111, 0x80, test_voice_head 0x00)"
      "[(0x22222222, 0x80, test_voice_head 0x00), (0x44444444, 0x80, test_voice_head 0x00)]"]
  from w p have a:
    "length (snd (TranslateToIPSC test_dialect 0x33333333 test_translator test_header_frame)) = 3"
    by blast
  from w e h have b: "map length (TranslateToHBRP_run test_dialect test_translator
     [(0x11111111, 0x80, test_voice_head 0x00), (0x22222222, 0x80, test_voice_head 0x00),
      (0x44444444, 0x80, test_voice_head 0x00)]) = 1 # replicate (length
       [(0x22222222 :: u32, 0x80 :: byte, test_voice_head 0x00),
        (0x44444444, 0x80, test_voice_head 0x00)]) 0"
    by blast
  have c: "1 # replicate (length
       [(0x22222222 :: u32, 0x80 :: byte, test_voice_head 0x00),
        (0x44444444, 0x80, test_voice_head 0x00)]) 0 = [1, 0, 0 :: nat]"
    by (simp add: numeral_2_eq_2)
  from p a e h b [unfolded c] show ?thesis by (intro conjI) simp_all
qed

end
